theory Spec2Isabelle
  imports Main "HOL-Library.AList"
begin

section \<open>Strings\<close>

text \<open>
  Names of groups, fields and parameters are ASCII strings. \<open>str.upper\<close> and \<open>str.lower\<close>
  change the case of the 26 ASCII letters, which differ in one bit of the character code,
  and leave every other character alone.
\<close>

definition upper_char :: "char \<Rightarrow> char" where
  "upper_char c =
     (case c of Char b0 b1 b2 b3 b4 b5 b6 b7 \<Rightarrow>
        if 97 \<le> (of_char c :: nat) \<and> (of_char c :: nat) \<le> 122
        then Char b0 b1 b2 b3 b4 False b6 b7 else c)"

definition lower_char :: "char \<Rightarrow> char" where
  "lower_char c =
     (case c of Char b0 b1 b2 b3 b4 b5 b6 b7 \<Rightarrow>
        if 65 \<le> (of_char c :: nat) \<and> (of_char c :: nat) \<le> 90
        then Char b0 b1 b2 b3 b4 True b6 b7 else c)"

definition upper :: "string \<Rightarrow> string" where
  "upper s = map upper_char s"

definition lower :: "string \<Rightarrow> string" where
  "lower s = map lower_char s"

definition endswith :: "string \<Rightarrow> string \<Rightarrow> bool" where
  "endswith s suffix =
     (length suffix \<le> length s \<and> drop (length s - length suffix) s = suffix)"

section \<open>Errors\<close>

text \<open>
  Every exception that \<open>SPL3SMP_Img.read\<close> can raise is a value. A message is kept as the
  sequence of its literal parts and of the values formatted into it, so that what a
  message says can be stated without fixing how Python prints a tuple or a list.
  \<open>OpenError\<close> is the \<open>IOError\<close> of \<open>h5py.File\<close> that \<open>read\<close> re-raises; \<open>IndexError\<close>
  comes from indexing a list or an array out of range, \<open>KeyError\<close> from a field missing in
  its group, \<open>AssertionError\<close> from the \<open>assert\<close> on a fixed overpass.
\<close>

datatype msg_part = Lit string | ShapeRepr "nat list" | ListRepr "string list"

datatype error =
    OpenError string
  | IOError "msg_part list"
  | IndexError
  | AssertionError
  | NameError "msg_part list"
  | KeyError string
  | ValueError "msg_part list"

section \<open>Arrays\<close>

text \<open>
  A numpy array is its shape and its elements in row-major order. \<open>array1d\<close> is the 1-D
  array of a sequence.
\<close>

record 'a ndarray =
  shape :: "nat list"
  elems :: "'a list"

definition array1d :: "'a list \<Rightarrow> 'a ndarray" where
  "array1d xs = \<lparr>shape = [length xs], elems = xs\<rparr>"

text \<open>
  \<open>np.flipud\<close> reverses the order of the entries along the leading axis and needs at
  least one axis. The entries along the leading axis of an array of shape \<open>n # rest\<close>
  are the \<open>n\<close> consecutive blocks of \<open>prod_list rest\<close> elements: the rows of a 2-D array.
\<close>

definition blocks :: "nat \<Rightarrow> nat \<Rightarrow> 'a list \<Rightarrow> 'a list list" where
  "blocks n blk xs = map (\<lambda>i. take blk (drop (i * blk) xs)) [0..<n]"

definition flipud :: "'a ndarray \<Rightarrow> error + 'a ndarray" where
  "flipud m =
     (case shape m of
        [] \<Rightarrow> Inl (ValueError [Lit ''Input must be >= 1-d.''])
      | n # rest \<Rightarrow> Inr (m\<lparr>elems := concat (rev (blocks n (prod_list rest) (elems m)))\<rparr>))"

text \<open>\<open>ndarray.reshape\<close> of a 1-D array keeps the elements and fails unless the sizes agree.\<close>

definition reshape :: "'a list \<Rightarrow> nat list \<Rightarrow> error + 'a ndarray" where
  "reshape xs shp =
     (if prod_list shp = length xs then Inr \<lparr>shape = shp, elems = xs\<rparr>
      else Inl (ValueError [Lit ''cannot reshape array into shape '', ShapeRepr shp]))"

text \<open>
  \<open>data[indices]\<close> with an integer index array: one element per index, a negative index
  counting from the end, \<open>IndexError\<close> when an index is out of bounds.
\<close>

definition in_bounds :: "'a list \<Rightarrow> int \<Rightarrow> bool" where
  "in_bounds xs i = (- int (length xs) \<le> i \<and> i < int (length xs))"

definition position :: "'a list \<Rightarrow> int \<Rightarrow> nat" where
  "position xs i = nat (if i < 0 then i + int (length xs) else i)"

fun index_array :: "'a list \<Rightarrow> int list \<Rightarrow> error + 'a list" where
  "index_array xs [] = Inr []"
| "index_array xs (i # is) =
     (if in_bounds xs i
      then (case index_array xs is of
              Inl e \<Rightarrow> Inl e
            | Inr ys \<Rightarrow> Inr (xs ! position xs i # ys))
      else Inl IndexError)"

text \<open>
  \<open>np.where(np.logical_or(data < valid_min, data > valid_max), fill_value, data)\<close>.
  Values are taken from a linear order.
\<close>

definition mask_where :: "'a::linorder \<Rightarrow> 'a \<Rightarrow> 'a \<Rightarrow> 'a list \<Rightarrow> 'a list" where
  "mask_where fill_value valid_min valid_max dat =
     map (\<lambda>x. if x < valid_min \<or> x > valid_max then fill_value else x) dat"

section \<open>Files, grids and images\<close>

text \<open>
  An HDF5 file is a sequence of named top-level groups, a group a sequence of named
  fields, and a field has its value array and its attributes. The grid is used through
  four attributes only: the indices of its active points, their longitudes and latitudes
  (1-D arrays), and the shape of the active subset. The file system maps a file name to
  the file that can be opened under it.
\<close>

record 'a dataset =
  dset_values :: "'a ndarray"
  dset_attrs :: "(string \<times> 'a) list"

type_synonym 'a h5group = "(string \<times> 'a dataset) list"
type_synonym 'a h5file = "(string \<times> 'a h5group) list"

record 'a cellgrid =
  activegpis :: "int list"
  activearrlon :: "'a list"
  activearrlat :: "'a list"
  subset_shape :: "nat list"

section \<open>Dates\<close>

text \<open>
  A naive Python \<open>datetime\<close> is a point on a microsecond time line; it is modelled as the
  number of microseconds since the epoch of the calendar. A \<open>timedelta\<close> is a signed number
  of microseconds, which Python stores normalised as days, seconds and microseconds with
  the seconds and microseconds non-negative: its attribute \<open>days\<close> is the floor of the
  duration divided by one day.
\<close>

type_synonym datetime = int
type_synonym timedelta = int

definition us_per_day :: int where
  "us_per_day = 86400000000"

definition days :: "timedelta \<Rightarrow> int" where
  "days diff = diff div us_per_day"

definition timedelta_days :: "int \<Rightarrow> timedelta" where
  "timedelta_days i = i * us_per_day"

text \<open>The \<open>Image\<close> of pygeobase: coordinates, data and metadata by variable name, time stamp.\<close>

record 'a Image =
  lon :: "'a ndarray"
  lat :: "'a ndarray"
  data :: "(string \<times> 'a ndarray) list"
  metadata :: "(string \<times> (string \<times> 'a) list) list"
  timestamp :: "datetime option"

section \<open>The single-image reader (class SPL3SMP_Img)\<close>

text \<open>
  The attributes that \<open>__init__\<close> sets. \<open>overpass_templ\<close> is always the same literal and
  is the constant \<open>overpass_templ_prefix\<close> below.
\<close>

record 'a SPL3SMP_Img =
  filename :: string
  mode :: string
  grid :: "'a cellgrid"
  overpass :: "string option"
  var_overpass_str :: bool
  parameters :: "string list"
  flatten :: bool

text \<open>
  \<open>__init__\<close>. The argument \<open>parameter\<close> is one name or a list of names; the first
  argument stands for the grid \<open>EASE36CellGrid()\<close> that is taken when no grid is passed.
\<close>

datatype parameter_arg = Name string | Names "string list"

definition SPL3SMP_Img_init ::
  "'a cellgrid \<Rightarrow> string \<Rightarrow> string \<Rightarrow> parameter_arg \<Rightarrow> string option \<Rightarrow> bool \<Rightarrow>
   'a cellgrid option \<Rightarrow> bool \<Rightarrow> 'a SPL3SMP_Img" where
  "SPL3SMP_Img_init EASE36CellGrid fname md parameter ovp vos g fl =
     \<lparr>filename = fname, mode = md,
      grid = (case g of None \<Rightarrow> EASE36CellGrid | Some g' \<Rightarrow> g'),
      overpass = (case ovp of None \<Rightarrow> None | Some ov \<Rightarrow> Some (upper ov)),
      var_overpass_str = vos,
      parameters = (case parameter of Name p \<Rightarrow> [p] | Names ps \<Rightarrow> ps),
      flatten = fl\<rparr>"

text \<open>
  The template \<open>Soil_Moisture_Retrieval_Data{orbit}\<close>. \<open>templ_format\<close> is
  \<open>overpass_templ.format(orbit=...)\<close>. \<open>templ_parse\<close> is \<open>parse(overpass_templ, k)\<close> of the
  package \<open>parse\<close>, giving the text matched by \<open>{orbit}\<close>: the whole name has to match, the
  fixed text is compared without regard to case, and the field matches one or more
  characters.
\<close>

definition overpass_templ_prefix :: string where
  "overpass_templ_prefix = ''Soil_Moisture_Retrieval_Data''"

definition templ_format :: "string \<Rightarrow> string" where
  "templ_format orbit = overpass_templ_prefix @ orbit"

definition templ_parse :: "string \<Rightarrow> string option" where
  "templ_parse k =
     (let n = length overpass_templ_prefix
      in if n < length k \<and> lower (take n k) = lower overpass_templ_prefix
         then Some (drop n k) else None)"

text \<open>The scan of the top-level names, keeping each match without its first character.\<close>

fun scan_overpasses :: "string list \<Rightarrow> string list" where
  "scan_overpasses [] = []"
| "scan_overpasses (k # ks) =
     (case templ_parse k of
        None \<Rightarrow> scan_overpasses ks
      | Some orbit \<Rightarrow> drop 1 orbit # scan_overpasses ks)"

text \<open>
  The part of \<open>read\<close> that settles the overpass. When the overpass is unset the resolved
  value is stored in the reader, so the reader is returned.
\<close>

definition resolve_overpass :: "'a h5file \<Rightarrow> 'b SPL3SMP_Img \<Rightarrow> error + 'b SPL3SMP_Img" where
  "resolve_overpass ds self =
     (case overpass self of
        None \<Rightarrow>
          (let overpasses = scan_overpasses (map fst ds)
           in if length overpasses > 1
              then Inl (IOError [Lit ''Multiple overpasses found in file, please specify one overpass to load: '',
                                 ListRepr overpasses])
              else (case overpasses of
                      [] \<Rightarrow> Inl IndexError
                    | ov # _ \<Rightarrow> Inr (self\<lparr>overpass := Some (upper ov)\<rparr>)))
      | Some ov \<Rightarrow> if ov \<in> set [''AM'', ''PM''] then Inr self else Inl AssertionError)"

text \<open>
  The suffix of the group name, \<open>'_' + overpass.upper() if overpass else ''\<close>, and the
  suffix of the field names, \<open>'_pm'\<close> for the overpass \<open>PM\<close> and empty otherwise. A value
  that is \<open>None\<close> or the empty string counts as false.
\<close>

definition group_suffix :: "string option \<Rightarrow> string" where
  "group_suffix ov = (case ov of None \<Rightarrow> [] | Some s \<Rightarrow> if s \<noteq> [] then ''_'' @ upper s else [])"

definition var_suffix :: "string option \<Rightarrow> string" where
  "var_suffix ov =
     (case ov of None \<Rightarrow> [] | Some s \<Rightarrow> if s \<noteq> [] then (if s = ''PM'' then ''_pm'' else []) else [])"

text \<open>
  Masking: the three attributes are looked up in the order \<open>_FillValue\<close>, \<open>valid_min\<close>,
  \<open>valid_max\<close>, and a \<open>KeyError\<close> of any lookup leaves the data as they are.
\<close>

definition mask_by_attrs :: "(string \<times> 'a::linorder) list \<Rightarrow> 'a list \<Rightarrow> 'a list" where
  "mask_by_attrs attrs dat =
     (case map_of attrs ''_FillValue'' of
        None \<Rightarrow> dat
      | Some fill_value \<Rightarrow>
          (case map_of attrs ''valid_min'' of
             None \<Rightarrow> dat
           | Some valid_min \<Rightarrow>
               (case map_of attrs ''valid_max'' of
                  None \<Rightarrow> dat
                | Some valid_max \<Rightarrow> mask_where fill_value valid_min valid_max dat)))"

text \<open>The loop that fills the metadata dictionary, one assignment per attribute key.\<close>

fun copy_attrs :: "(string \<times> 'a) list \<Rightarrow> string list \<Rightarrow> (string \<times> 'a) list \<Rightarrow> (string \<times> 'a) list" where
  "copy_attrs attrs [] md = md"
| "copy_attrs attrs (key # keys) md =
     (case map_of attrs key of
        None \<Rightarrow> copy_attrs attrs keys md
      | Some v \<Rightarrow> copy_attrs attrs keys (AList.update key v md))"

text \<open>
  One requested field: look it up in the group, flip and flatten its values, select the
  active grid points, mask, and copy the attributes. (The reader always has a grid.)
\<close>

definition read_param ::
  "'a cellgrid \<Rightarrow> ('a::linorder) h5group \<Rightarrow> string \<Rightarrow> error + ('a list \<times> (string \<times> 'a) list)" where
  "read_param g grp field =
     (case map_of grp field of
        None \<Rightarrow> Inl (KeyError field)
      | Some param \<Rightarrow>
          (case flipud (dset_values param) of
             Inl e \<Rightarrow> Inl e
           | Inr flipped \<Rightarrow>
               (case index_array (elems flipped) (activegpis g) of
                  Inl e \<Rightarrow> Inl e
                | Inr dat \<Rightarrow>
                    Inr (mask_by_attrs (dset_attrs param) dat,
                         copy_attrs (dset_attrs param) (map fst (dset_attrs param)) []))))"

text \<open>The name under which a parameter is returned, with the warnings issued for it.\<close>

definition rename_warning :: string where
  "rename_warning = ''Renaming variable only possible if overpass in given. Use names as in file.''"

definition ret_param_name :: "bool \<Rightarrow> string option \<Rightarrow> string \<Rightarrow> string \<times> string list" where
  "ret_param_name vos ov parameter =
     (if vos then
        (case ov of
           None \<Rightarrow> (parameter, [rename_warning])
         | Some s \<Rightarrow>
             if \<not> endswith parameter (''_'' @ lower s)
             then (parameter @ ''_'' @ lower s, [])
             else (parameter, []))
      else (parameter, []))"

text \<open>
  The loop over the requested parameters, for the grid, the output-suffix toggle and
  the resolved overpass of the reader. \<open>return_data\<close> and \<open>return_meta\<close> are Python
  dictionaries: an assignment replaces the value of a key that is present and appends
  a new key otherwise, which is \<open>AList.update\<close>. The warnings issued so far are threaded
  through and survive an error.
\<close>

fun read_params ::
  "'a cellgrid \<Rightarrow> bool \<Rightarrow> string option \<Rightarrow> ('a::linorder) h5group \<Rightarrow> string list \<Rightarrow>
   (string \<times> 'a list) list \<Rightarrow> (string \<times> (string \<times> 'a) list) list \<Rightarrow> string list \<Rightarrow>
   (error + (string \<times> 'a list) list \<times> (string \<times> (string \<times> 'a) list) list) \<times> string list" where
  "read_params g vos ov grp [] return_data return_meta ws = (Inr (return_data, return_meta), ws)"
| "read_params g vos ov grp (parameter # ps) return_data return_meta ws =
     (case read_param g grp (parameter @ var_suffix ov) of
        Inl e \<Rightarrow> (Inl e, ws)
      | Inr (dat, md) \<Rightarrow>
          (case ret_param_name vos ov parameter of
             (ret_name, w) \<Rightarrow>
               read_params g vos ov grp ps (AList.update ret_name dat return_data)
                 (AList.update ret_name md return_meta) (ws @ w)))"

text \<open>\<open>np.flipud(x.reshape(shape))\<close>, and the same for every item of a dictionary.\<close>

definition raster :: "'a list \<Rightarrow> nat list \<Rightarrow> error + 'a ndarray" where
  "raster xs shp = (case reshape xs shp of Inl e \<Rightarrow> Inl e | Inr a \<Rightarrow> flipud a)"

fun raster_items :: "(string \<times> 'a list) list \<Rightarrow> nat list \<Rightarrow> error + (string \<times> 'a ndarray) list" where
  "raster_items [] shp = Inr []"
| "raster_items ((param, dat) # items) shp =
     (case raster dat shp of
        Inl e \<Rightarrow> Inl e
      | Inr a \<Rightarrow>
          (case raster_items items shp of
             Inl e \<Rightarrow> Inl e
           | Inr rest \<Rightarrow> Inr ((param, a) # rest)))"

text \<open>
  The end of \<open>read\<close>: the image in flatten mode or in raster mode, with the two errors
  of the raster mode and their messages (the second formats the shape into its text).
\<close>

definition grid_1d_error :: error where
  "grid_1d_error =
     ValueError [Lit ''Grid is 1-dimensional, to read a 2d image, a 2d grid - e.g. from bbox of the global grid -is required.'']"

definition shape_mismatch_error :: "nat list \<Rightarrow> error" where
  "shape_mismatch_error shp =
     ValueError [Lit ''The grid shape '', ShapeRepr shp,
       Lit '' does not match with the shape of the loaded data. If you have passed a subgrid with gaps (e.g. landpoints only) you have to set `flatten=True`'']"

definition shape_image ::
  "'a SPL3SMP_Img \<Rightarrow> (string \<times> 'a list) list \<Rightarrow> (string \<times> (string \<times> 'a) list) list \<Rightarrow>
   datetime option \<Rightarrow> error + 'a Image" where
  "shape_image self return_data return_meta ts =
     (let g = grid self in
      if flatten self then
        Inr \<lparr>lon = array1d (activearrlon g), lat = array1d (activearrlat g),
             data = map (\<lambda>(param, dat). (param, array1d dat)) return_data,
             metadata = return_meta, timestamp = ts\<rparr>
      else if length (subset_shape g) \<noteq> 2 then Inl grid_1d_error
      else if prod_list (subset_shape g) \<noteq> length (activearrlon g) \<or>
              prod_list (subset_shape g) \<noteq> length (activearrlat g)
      then Inl (shape_mismatch_error (subset_shape g))
      else
        (case raster (activearrlon g) (subset_shape g) of
           Inl e \<Rightarrow> Inl e
         | Inr lons \<Rightarrow>
             (case raster (activearrlat g) (subset_shape g) of
                Inl e \<Rightarrow> Inl e
              | Inr lats \<Rightarrow>
                  (case raster_items return_data (subset_shape g) of
                     Inl e \<Rightarrow> Inl e
                   | Inr dat \<Rightarrow>
                       Inr \<lparr>lon = lons, lat = lats, data = dat,
                            metadata = return_meta, timestamp = ts\<rparr>))))"

text \<open>
  \<open>read\<close> up to the end of the loop over the parameters: open the file, settle the
  overpass, find the group, read every requested field. The result is the pair of
  dictionaries or the error, the reader as the call leaves it, and the warnings issued.
  The two lines printed before an open failure is re-raised are left out.
\<close>

definition read_fields ::
  "(string \<rightharpoonup> ('a::linorder) h5file) \<Rightarrow> 'a SPL3SMP_Img \<Rightarrow>
   (error + (string \<times> 'a list) list \<times> (string \<times> (string \<times> 'a) list) list) \<times>
   'a SPL3SMP_Img \<times> string list" where
  "read_fields fs self =
     (case fs (filename self) of
        None \<Rightarrow> (Inl (OpenError (filename self)), self, [])
      | Some ds \<Rightarrow>
          (case resolve_overpass ds self of
             Inl e \<Rightarrow> (Inl e, self, [])
           | Inr self' \<Rightarrow>
               (let sm_field = templ_format (group_suffix (overpass self'))
                in case map_of ds sm_field of
                     None \<Rightarrow>
                       (Inl (NameError [Lit sm_field,
                               Lit ''Field does not exists. Try deactivating overpass option.'']),
                        self', [])
                   | Some grp \<Rightarrow>
                       (case read_params (grid self') (var_overpass_str self') (overpass self')
                               grp (parameters self') [] [] [] of
                          (r, ws) \<Rightarrow> (r, self', ws)))))"

text \<open>The whole of \<open>read\<close>: the image or the error, the reader afterwards, the warnings.\<close>

definition read ::
  "(string \<rightharpoonup> ('a::linorder) h5file) \<Rightarrow> 'a SPL3SMP_Img \<Rightarrow> datetime option \<Rightarrow>
   (error + 'a Image) \<times> 'a SPL3SMP_Img \<times> string list" where
  "read fs self ts =
     (case read_fields fs self of
        (Inl e, self', ws) \<Rightarrow> (Inl e, self', ws)
      | (Inr (return_data, return_meta), self', ws) \<Rightarrow>
          (shape_image self' return_data return_meta ts, self', ws))"

section \<open>What an error message says\<close>

text \<open>
  A message recommends flatten mode when one of its literal parts contains the word
  \<open>flatten\<close>.
\<close>

fun contains :: "string \<Rightarrow> string \<Rightarrow> bool" where
  "contains [] sub = (sub = [])"
| "contains (c # s) sub = (take (length sub) (c # s) = sub \<or> contains s sub)"

fun part_mentions :: "string \<Rightarrow> msg_part \<Rightarrow> bool" where
  "part_mentions w (Lit s) = contains s w"
| "part_mentions w (ShapeRepr shp) = False"
| "part_mentions w (ListRepr xs) = False"

fun recommends_flatten :: "error \<Rightarrow> bool" where
  "recommends_flatten (ValueError parts) = list_ex (part_mentions ''flatten'') parts"
| "recommends_flatten e = False"

section \<open>The dataset iterator (class SPL3SMP_Ds)\<close>

text \<open>Python's \<open>range(n)\<close>: the integers from 0 up to \<open>n - 1\<close>, empty when \<open>n \<le> 0\<close>.\<close>

definition range_py :: "int \<Rightarrow> int list" where
  "range_py n = [0..n - 1]"

text \<open>
  \<open>SPL3SMP_Ds.tstamps_for_daterange\<close>: the loop appends \<open>start_date + timedelta(days=i)\<close>
  for every \<open>i\<close> of \<open>range(diff.days + 1)\<close>.
\<close>

definition tstamps_for_daterange :: "datetime \<Rightarrow> datetime \<Rightarrow> datetime list" where
  "tstamps_for_daterange start_date end_date =
     (let diff = end_date - start_date
      in map (\<lambda>i. start_date + timedelta_days i) (range_py (days diff + 1)))"

section \<open>Properties of the dataset iterator\<close>

lemma length_range_py: "length (range_py n) = nat n"
  by (simp add: range_py_def)

lemma nth_range_py: "i < nat n \<Longrightarrow> range_py n ! i = int i"
  by (simp add: range_py_def)

lemma length_tstamps:
  "length (tstamps_for_daterange s e) = nat (days (e - s) + 1)"
  by (simp add: tstamps_for_daterange_def length_range_py)

lemma nth_tstamps:
  "i < nat (days (e - s) + 1) \<Longrightarrow>
   tstamps_for_daterange s e ! i = s + timedelta_days (int i)"
  by (simp add: tstamps_for_daterange_def length_range_py nth_range_py)

lemma days_nonneg: "s \<le> e \<Longrightarrow> 0 \<le> days (e - s)"
  by (simp add: days_def us_per_day_def)

lemma days_negative: "e < s \<Longrightarrow> days (e - s) < 0"
  by (simp add: days_def us_per_day_def)

lemma timedelta_days_0: "timedelta_days 0 = 0"
  by (simp add: timedelta_days_def)

lemma timedelta_days_Suc: "timedelta_days (int (Suc i)) = timedelta_days (int i) + us_per_day"
  by (simp add: timedelta_days_def algebra_simps)

lemma days_whole_le: "timedelta_days (days d) \<le> d"
  by (simp add: timedelta_days_def days_def us_per_day_def)

lemma days_whole_gt: "d < timedelta_days (days d) + us_per_day"
proof -
  have "d mod us_per_day < us_per_day" by (simp add: us_per_day_def)
  moreover have "d = timedelta_days (days d) + d mod us_per_day"
    by (simp add: timedelta_days_def days_def)
  ultimately show ?thesis by linarith
qed

lemma days_whole_eq: "d mod us_per_day = 0 \<Longrightarrow> timedelta_days (days d) = d"
  using div_mult_mod_eq [of d us_per_day] by (simp add: timedelta_days_def days_def)

lemma sorted_tstamps: "sorted_wrt (<) (tstamps_for_daterange s e)"
  unfolding tstamps_for_daterange_def Let_def range_py_def
  by (simp add: sorted_wrt_map timedelta_days_def us_per_day_def sorted_wrt_upto)

text \<open>
  C6, as stated, fails for the last entry. The operation steps in whole days from the
  start, so the last entry is the end only when the two differ by a whole number of days:
  from midnight to noon of the same day the result is the start alone.
\<close>

theorem tstamps_last_is_end_counterexample:
  "(0::int) \<le> 43200000000 \<and> tstamps_for_daterange 0 43200000000 = [0] \<and>
   last (tstamps_for_daterange 0 43200000000) \<noteq> 43200000000"
  by (simp add: tstamps_for_daterange_def range_py_def days_def us_per_day_def timedelta_days_def)

text \<open>
  C6, amended. For every start and end with the end not before the start, the operation
  returns exactly \<open>(end - start).days + 1\<close> entries; entry \<open>i\<close> is the start plus \<open>i\<close> days,
  so consecutive entries differ by exactly one day, the sequence is strictly increasing
  and has no duplicates, and its first entry is the start. Its last entry is the start
  plus \<open>(end - start).days\<close> days: it is not after the end, less than one day before it,
  and equal to it when the end and the start differ by a whole number of days. The result
  is a function of the two dates alone.
\<close>

theorem tstamps_for_daterange_days:
  assumes "start_date \<le> end_date"
  defines "ts \<equiv> tstamps_for_daterange start_date end_date"
  defines "n \<equiv> days (end_date - start_date)"
  shows "length ts = nat (n + 1) \<and>
    (\<forall>i < length ts. ts ! i = start_date + timedelta_days (int i)) \<and>
    (\<forall>i. Suc i < length ts \<longrightarrow> ts ! Suc i = ts ! i + us_per_day) \<and>
    sorted_wrt (<) ts \<and> distinct ts \<and>
    hd ts = start_date \<and>
    last ts = start_date + timedelta_days n \<and>
    last ts \<le> end_date \<and> end_date < last ts + us_per_day \<and>
    ((end_date - start_date) mod us_per_day = 0 \<longrightarrow> last ts = end_date)"
proof -
  have n0: "0 \<le> n" using assms(1) by (simp add: n_def days_nonneg)
  have len: "length ts = nat (n + 1)" by (simp add: ts_def n_def length_tstamps)
  have nth: "\<And>i. i < length ts \<Longrightarrow> ts ! i = start_date + timedelta_days (int i)"
    using len by (simp add: ts_def n_def nth_tstamps)
  have step: "\<And>i. Suc i < length ts \<Longrightarrow> ts ! Suc i = ts ! i + us_per_day"
    using nth by (simp add: timedelta_days_def algebra_simps)
  have srt: "sorted_wrt (<) ts" by (simp add: ts_def sorted_tstamps)
  have dst: "distinct ts" using srt by (simp add: strict_sorted_iff)
  have ne: "ts \<noteq> []" using len n0 by auto
  have hd: "hd ts = start_date"
    using nth [of 0] ne by (simp add: hd_conv_nth timedelta_days_0)
  have "last ts = ts ! (length ts - 1)" using ne by (simp add: last_conv_nth)
  also have "\<dots> = start_date + timedelta_days (int (length ts - 1))"
    using ne by (intro nth) simp
  also have "int (length ts - 1) = n" using len n0 by simp
  finally have lst: "last ts = start_date + timedelta_days n" .
  have le: "last ts \<le> end_date"
    using days_whole_le [of "end_date - start_date"] lst by (simp add: n_def)
  have gt: "end_date < last ts + us_per_day"
    using days_whole_gt [of "end_date - start_date"] lst by (simp add: n_def)
  have eq: "(end_date - start_date) mod us_per_day = 0 \<Longrightarrow> last ts = end_date"
    using days_whole_eq [of "end_date - start_date"] lst by (simp add: n_def)
  show ?thesis using len nth step srt dst hd lst le gt eq by blast
qed

theorem tstamps_for_daterange_days_witness:
  "(5::int) \<le> 5 + 2 * us_per_day \<and>
   tstamps_for_daterange 5 (5 + 2 * us_per_day) = [5, 5 + us_per_day, 5 + 2 * us_per_day] \<and>
   last (tstamps_for_daterange 5 (5 + 2 * us_per_day)) = 5 + 2 * us_per_day"
  using tstamps_for_daterange_days [of 5 "5 + 2 * us_per_day"]
  by (simp add: us_per_day_def days_def timedelta_days_def tstamps_for_daterange_def
      range_py_def upto.simps)

text \<open>
  C8. When the end date lies before the start date (by a whole day or by any smaller
  amount), the operation returns the empty sequence: it neither fails nor counts
  downwards.
\<close>

theorem tstamps_end_before_start_empty:
  "end_date < start_date \<Longrightarrow> tstamps_for_daterange start_date end_date = []"
  using days_negative [of end_date start_date]
  by (simp add: tstamps_for_daterange_def range_py_def)

theorem tstamps_end_before_start_empty_witness:
  "(0::int) < 3 * us_per_day \<and> tstamps_for_daterange (3 * us_per_day) 0 = []"
proof -
  have h: "(0::int) < 3 * us_per_day" by (simp add: us_per_day_def)
  show ?thesis using h tstamps_end_before_start_empty [OF h] by simp
qed

section \<open>Properties of the single-image reader\<close>

subsection \<open>Output names\<close>

lemma lower_AM: "lower ''AM'' = ''am''" and lower_PM: "lower ''PM'' = ''pm''"
  by (simp_all add: lower_def lower_char_def)

text \<open>
  C4. The name under which a requested parameter is returned: with output-suffixing
  enabled and an overpass known, the lower-case overpass suffix is appended unless the
  name already ends with it (\<open>soil_moisture\<close> under \<open>PM\<close> gives \<open>soil_moisture_pm\<close>, and
  \<open>soil_moisture_pm\<close> stays as it is); with output-suffixing enabled and no overpass, a
  warning is issued and the name is unchanged; with output-suffixing disabled the name is
  unchanged whatever the overpass, and no warning is issued.
\<close>

theorem ret_param_name_rule:
  "ret_param_name True (Some ov) p =
     (if endswith p (''_'' @ lower ov) then p else p @ ''_'' @ lower ov, []) \<and>
   ret_param_name True None p = (p, [rename_warning]) \<and>
   ret_param_name False ov' p = (p, []) \<and>
   lower ''AM'' = ''am'' \<and> lower ''PM'' = ''pm'' \<and>
   ret_param_name True (Some ''PM'') ''soil_moisture'' = (''soil_moisture_pm'', []) \<and>
   ret_param_name True (Some ''PM'') ''soil_moisture_pm'' = (''soil_moisture_pm'', []) \<and>
   ret_param_name False (Some ''PM'') ''soil_moisture'' = (''soil_moisture'', [])"
  by (simp add: ret_param_name_def lower_AM lower_PM endswith_def)

subsection \<open>Masking\<close>

lemma length_mask_where: "length (mask_where f lo hi xs) = length xs"
  by (simp add: mask_where_def)

lemma nth_mask_where:
  "i < length xs \<Longrightarrow>
   mask_where f lo hi xs ! i = (if xs ! i < lo \<or> hi < xs ! i then f else xs ! i)"
  by (simp add: mask_where_def)

lemma mask_by_attrs_present:
  "map_of attrs ''_FillValue'' = Some f \<Longrightarrow> map_of attrs ''valid_min'' = Some lo \<Longrightarrow>
   map_of attrs ''valid_max'' = Some hi \<Longrightarrow> mask_by_attrs attrs xs = mask_where f lo hi xs"
  by (simp add: mask_by_attrs_def)

lemma mask_by_attrs_missing:
  "map_of attrs ''_FillValue'' = None \<or> map_of attrs ''valid_min'' = None \<or>
   map_of attrs ''valid_max'' = None \<Longrightarrow> mask_by_attrs attrs xs = xs"
  by (auto simp add: mask_by_attrs_def split: option.splits)

text \<open>
  C3. For a requested field that is found, flipped and reindexed without error, reading
  the field succeeds whatever its attributes are. When the field carries \<open>_FillValue\<close>,
  \<open>valid_min\<close> and \<open>valid_max\<close>, every value strictly below \<open>valid_min\<close> or strictly above
  \<open>valid_max\<close> is replaced by \<open>_FillValue\<close>, and every value from \<open>valid_min\<close> to
  \<open>valid_max\<close>, the two bounds included, is kept. When one of the three attributes is
  missing, the values are returned unmasked.
\<close>

theorem read_param_masking:
  assumes "map_of grp field = Some param"
    and "flipud (dset_values param) = Inr flipped"
    and "index_array (elems flipped) (activegpis g) = Inr raw"
  shows "\<exists>dat md. read_param g grp field = Inr (dat, md) \<and> length dat = length raw \<and>
     (\<forall>f lo hi. map_of (dset_attrs param) ''_FillValue'' = Some f \<and>
         map_of (dset_attrs param) ''valid_min'' = Some lo \<and>
         map_of (dset_attrs param) ''valid_max'' = Some hi \<longrightarrow>
         (\<forall>i < length raw.
            (raw ! i < lo \<or> hi < raw ! i \<longrightarrow> dat ! i = f) \<and>
            (lo \<le> raw ! i \<and> raw ! i \<le> hi \<longrightarrow> dat ! i = raw ! i))) \<and>
     (map_of (dset_attrs param) ''_FillValue'' = None \<or>
      map_of (dset_attrs param) ''valid_min'' = None \<or>
      map_of (dset_attrs param) ''valid_max'' = None \<longrightarrow> dat = raw)"
proof -
  let ?dat = "mask_by_attrs (dset_attrs param) raw"
  have r: "read_param g grp field =
      Inr (?dat, copy_attrs (dset_attrs param) (map fst (dset_attrs param)) [])"
    using assms by (simp add: read_param_def)
  have len: "length ?dat = length raw"
    by (simp add: mask_by_attrs_def length_mask_where split: option.splits)
  have pres: "\<And>f lo hi i. map_of (dset_attrs param) ''_FillValue'' = Some f \<Longrightarrow>
      map_of (dset_attrs param) ''valid_min'' = Some lo \<Longrightarrow>
      map_of (dset_attrs param) ''valid_max'' = Some hi \<Longrightarrow> i < length raw \<Longrightarrow>
      (raw ! i < lo \<or> hi < raw ! i \<longrightarrow> ?dat ! i = f) \<and>
      (lo \<le> raw ! i \<and> raw ! i \<le> hi \<longrightarrow> ?dat ! i = raw ! i)"
    by (auto simp add: mask_by_attrs_present nth_mask_where)
  have miss: "map_of (dset_attrs param) ''_FillValue'' = None \<or>
      map_of (dset_attrs param) ''valid_min'' = None \<or>
      map_of (dset_attrs param) ''valid_max'' = None \<Longrightarrow> ?dat = raw"
    by (rule mask_by_attrs_missing)
  show ?thesis
  proof (intro exI conjI allI impI)
    show "read_param g grp field =
      Inr (?dat, copy_attrs (dset_attrs param) (map fst (dset_attrs param)) [])" by (rule r)
    show "length ?dat = length raw" by (rule len)
  next
    fix f lo hi i
    assume a: "map_of (dset_attrs param) ''_FillValue'' = Some f \<and>
         map_of (dset_attrs param) ''valid_min'' = Some lo \<and>
         map_of (dset_attrs param) ''valid_max'' = Some hi" and i: "i < length raw"
    { assume "raw ! i < lo \<or> hi < raw ! i"
      then show "?dat ! i = f" using pres [of f lo hi i] a i by blast }
    { assume "lo \<le> raw ! i \<and> raw ! i \<le> hi"
      then show "?dat ! i = raw ! i" using pres [of f lo hi i] a i by blast }
  next
    assume "map_of (dset_attrs param) ''_FillValue'' = None \<or>
      map_of (dset_attrs param) ''valid_min'' = None \<or>
      map_of (dset_attrs param) ''valid_max'' = None"
    then show "?dat = raw" by (rule miss)
  qed
qed

theorem read_param_masking_witness:
  "read_param \<lparr>activegpis = [0, 1, 2, 3], activearrlon = [0, 0, 0, 0], activearrlat = [0, 0, 0, 0],
       subset_shape = [2, 2]\<rparr>
     [(''soil_moisture'', \<lparr>dset_values = \<lparr>shape = [2, 2], elems = [0, 1, 5, 6 :: int]\<rparr>,
        dset_attrs = [(''_FillValue'', -9999), (''valid_min'', 1), (''valid_max'', 5)]\<rparr>)]
     ''soil_moisture'' =
   Inr ([5, -9999, -9999, 1],
        [(''_FillValue'', -9999), (''valid_min'', 1), (''valid_max'', 5)])"
  using read_param_masking [of
      "[(''soil_moisture'', \<lparr>dset_values = \<lparr>shape = [2, 2], elems = [0, 1, 5, 6 :: int]\<rparr>,
        dset_attrs = [(''_FillValue'', -9999), (''valid_min'', 1), (''valid_max'', 5)]\<rparr>)]"
      "''soil_moisture''"
      "\<lparr>dset_values = \<lparr>shape = [2, 2], elems = [0, 1, 5, 6 :: int]\<rparr>,
        dset_attrs = [(''_FillValue'', -9999), (''valid_min'', 1), (''valid_max'', 5)]\<rparr>"
      "\<lparr>shape = [2, 2], elems = [5, 6, 0, 1 :: int]\<rparr>"
      "\<lparr>activegpis = [0, 1, 2, 3], activearrlon = [0, 0, 0, 0 :: int], activearrlat = [0, 0, 0, 0],
       subset_shape = [2, 2]\<rparr>"
      "[5, 6, 0, 1]"]
  by (simp add: read_param_def flipud_def blocks_def in_bounds_def position_def
      mask_by_attrs_def mask_where_def upt_rec)

subsection \<open>Construction\<close>

text \<open>
  C10. A reader constructed with the single name \<open>p\<close> stores the parameter list \<open>[p]\<close>,
  is the same reader as the one constructed with the list \<open>[p]\<close>, and so reads the same;
  whatever the form of the argument, the stored parameters are a list.
\<close>

theorem init_single_parameter:
  "parameters (SPL3SMP_Img_init G f m (Name p) ov vos g fl) = [p] \<and>
   SPL3SMP_Img_init G f m (Name p) ov vos g fl = SPL3SMP_Img_init G f m (Names [p]) ov vos g fl \<and>
   read fs (SPL3SMP_Img_init G f m (Name p) ov vos g fl) ts =
     read fs (SPL3SMP_Img_init G f m (Names [p]) ov vos g fl) ts \<and>
   parameters (SPL3SMP_Img_init G f m parameter ov vos g fl) =
     (case parameter of Name q \<Rightarrow> [q] | Names qs \<Rightarrow> qs)"
  by (simp add: SPL3SMP_Img_init_def)

subsection \<open>Resolving the overpass\<close>

lemma templ_parse_plain: "templ_parse ''Soil_Moisture_Retrieval_Data'' = None"
  by (simp add: templ_parse_def overpass_templ_prefix_def)

lemma templ_parse_AM: "templ_parse ''Soil_Moisture_Retrieval_Data_AM'' = Some ''_AM''"
  by (simp add: templ_parse_def overpass_templ_prefix_def)

lemma templ_parse_PM: "templ_parse ''Soil_Moisture_Retrieval_Data_PM'' = Some ''_PM''"
  by (simp add: templ_parse_def overpass_templ_prefix_def)

lemma upper_AM: "upper ''AM'' = ''AM''" and upper_PM: "upper ''PM'' = ''PM''"
  and upper_am: "upper ''am'' = ''AM''" and upper_xy: "upper ''xy'' = ''XY''"
  by (simp_all add: upper_def upper_char_def)

lemma resolve_overpass_cases:
  "resolve_overpass ds self =
     (case overpass self of
        None \<Rightarrow>
          (case scan_overpasses (map fst ds) of
             [] \<Rightarrow> Inl IndexError
           | [ov] \<Rightarrow> Inr (self\<lparr>overpass := Some (upper ov)\<rparr>)
           | ov # ov' # ovs \<Rightarrow>
               Inl (IOError [Lit ''Multiple overpasses found in file, please specify one overpass to load: '',
                             ListRepr (ov # ov' # ovs)]))
      | Some ov \<Rightarrow> if ov = ''AM'' \<or> ov = ''PM'' then Inr self else Inl AssertionError)"
  by (simp add: resolve_overpass_def Let_def split: option.splits list.splits)

lemma resolve_two:
  "resolve_overpass [(''Soil_Moisture_Retrieval_Data_AM'', ga), (''Soil_Moisture_Retrieval_Data_PM'', gp)]
     (SPL3SMP_Img_init G f m p None vos g fl) =
   Inl (IOError [Lit ''Multiple overpasses found in file, please specify one overpass to load: '',
                             ListRepr [''AM'', ''PM'']])"
  by (simp add: resolve_overpass_def SPL3SMP_Img_init_def templ_parse_AM templ_parse_PM)

lemma resolve_one:
  "resolve_overpass [(''Soil_Moisture_Retrieval_Data_AM'', ga)]
     (SPL3SMP_Img_init G f m p None vos g fl) =
   Inr (SPL3SMP_Img_init G f m p (Some ''AM'') vos g fl)"
  by (simp add: resolve_overpass_def SPL3SMP_Img_init_def templ_parse_AM upper_AM)

lemma resolve_fixed:
  "resolve_overpass ds (SPL3SMP_Img_init G f m p (Some ''am'') vos g fl) =
     Inr (SPL3SMP_Img_init G f m p (Some ''am'') vos g fl)"
  "resolve_overpass ds (SPL3SMP_Img_init G f m p (Some ''xy'') vos g fl) = Inl AssertionError"
  by (simp_all add: resolve_overpass_def SPL3SMP_Img_init_def upper_am upper_xy)

text \<open>
  C2. The overpass is resolved as \<open>resolve_overpass_cases\<close> says: with the overpass unset,
  two or more matching groups give the error that lists the candidates
  (\<open>resolve_two\<close>) and exactly one gives its suffix in upper case without the underscore
  (\<open>resolve_one\<close>); a fixed overpass must be \<open>AM\<close> or \<open>PM\<close> after normalisation
  (\<open>resolve_fixed\<close>). With the overpass unset and no matching group, however, the read
  does not go on without an overpass: for a file of the old layout, whose only group is
  \<open>Soil_Moisture_Retrieval_Data\<close>, taking the first element of the empty list of
  candidates fails with \<open>IndexError\<close>, and no warning is issued.
\<close>

theorem read_unset_overpass_no_suffixed_group:
  "read [''old.h5'' \<mapsto> [(''Soil_Moisture_Retrieval_Data'',
            [(''soil_moisture'', \<lparr>dset_values = \<lparr>shape = [1, 1], elems = [7 :: int]\<rparr>,
                                  dset_attrs = []\<rparr>)])]]
        (SPL3SMP_Img_init G ''old.h5'' ''r'' (Name ''soil_moisture'') None True None True) ts =
     (Inl IndexError,
      SPL3SMP_Img_init G ''old.h5'' ''r'' (Name ''soil_moisture'') None True None True, [])"
  by (simp add: read_def read_fields_def resolve_overpass_def SPL3SMP_Img_init_def
      templ_parse_plain)

subsection \<open>The reader after a read\<close>

lemma read_fields_reader:
  "fst (snd (read_fields fs self)) =
     (case fs (filename self) of
        None \<Rightarrow> self
      | Some ds \<Rightarrow> (case resolve_overpass ds self of Inl e \<Rightarrow> self | Inr self' \<Rightarrow> self'))"
  by (simp add: read_fields_def Let_def split: option.splits sum.splits prod.splits)

lemma read_reader: "fst (snd (read fs self ts)) = fst (snd (read_fields fs self))"
  by (simp add: read_def split: prod.splits sum.splits)

lemma resolve_overpass_fixed_same:
  "overpass self = Some ov \<Longrightarrow> resolve_overpass ds self = Inr self' \<Longrightarrow> self' = self"
  by (simp add: resolve_overpass_cases split: if_splits)

lemma resolve_overpass_unset:
  "overpass self = None \<Longrightarrow>
   (case resolve_overpass ds self of Inl e \<Rightarrow> self | Inr self' \<Rightarrow> self') =
   (case scan_overpasses (map fst ds) of
      [ov] \<Rightarrow> self\<lparr>overpass := Some (upper ov)\<rparr> | _ \<Rightarrow> self)"
  by (simp add: resolve_overpass_cases split: list.splits)

text \<open>
  C7, as stated, fails: a reader constructed with the overpass unset has the overpass
  \<open>AM\<close> after reading a file whose only group is the one of the overpass \<open>AM\<close>.
\<close>

theorem read_sets_overpass_counterexample:
  "overpass (SPL3SMP_Img_init
       \<lparr>activegpis = [0], activearrlon = [10 :: int], activearrlat = [20], subset_shape = [1, 1]\<rparr>
       ''new.h5'' ''r'' (Name ''soil_moisture'') None True None False) = None \<and>
   read [''new.h5'' \<mapsto> [(''Soil_Moisture_Retrieval_Data_AM'',
            [(''soil_moisture'', \<lparr>dset_values = \<lparr>shape = [1, 1], elems = [7 :: int]\<rparr>,
                                  dset_attrs = []\<rparr>)])]]
     (SPL3SMP_Img_init
       \<lparr>activegpis = [0], activearrlon = [10], activearrlat = [20], subset_shape = [1, 1]\<rparr>
       ''new.h5'' ''r'' (Name ''soil_moisture'') None True None False) None =
   (Inr \<lparr>lon = \<lparr>shape = [1, 1], elems = [10]\<rparr>, lat = \<lparr>shape = [1, 1], elems = [20]\<rparr>,
         data = [(''soil_moisture_am'', \<lparr>shape = [1, 1], elems = [7]\<rparr>)],
         metadata = [(''soil_moisture_am'', [])], timestamp = None\<rparr>,
    SPL3SMP_Img_init
       \<lparr>activegpis = [0], activearrlon = [10], activearrlat = [20], subset_shape = [1, 1]\<rparr>
       ''new.h5'' ''r'' (Name ''soil_moisture'') (Some ''AM'') True None False,
    []) \<and>
   overpass (SPL3SMP_Img_init
       \<lparr>activegpis = [0], activearrlon = [10 :: int], activearrlat = [20], subset_shape = [1, 1]\<rparr>
       ''new.h5'' ''r'' (Name ''soil_moisture'') (Some ''AM'') True None False) \<noteq> None"
  by (simp add: read_def read_fields_def resolve_overpass_def SPL3SMP_Img_init_def
      templ_parse_AM upper_AM templ_format_def overpass_templ_prefix_def group_suffix_def
      var_suffix_def read_param_def flipud_def blocks_def in_bounds_def position_def
      mask_by_attrs_def ret_param_name_def endswith_def lower_AM shape_image_def raster_def
      reshape_def)

text \<open>
  C7, amended. A read, successful or failing, leaves the file name, the open mode, the
  grid, the output-suffix toggle, the parameter list and the flatten toggle of the reader
  as they were. A reader whose overpass is set is left unchanged altogether. A reader
  whose overpass is unset is left unchanged when the file cannot be opened or does not
  have exactly one matching group; when there is exactly one, the reader leaves the call
  with that group's suffix, in upper case and without its first character, as its
  overpass, whether or not the rest of the read succeeds.
\<close>

theorem read_reader_frame:
  fixes self :: "('a::linorder) SPL3SMP_Img" and fs ts
  defines "self' \<equiv> fst (snd (read fs self ts))"
  shows "filename self' = filename self \<and> mode self' = mode self \<and> grid self' = grid self \<and>
     var_overpass_str self' = var_overpass_str self \<and> parameters self' = parameters self \<and>
     flatten self' = flatten self \<and>
     (overpass self \<noteq> None \<longrightarrow> self' = self) \<and>
     (overpass self = None \<longrightarrow>
        self' = (case fs (filename self) of
                   None \<Rightarrow> self
                 | Some ds \<Rightarrow>
                     (case scan_overpasses (map fst ds) of
                        [ov] \<Rightarrow> self\<lparr>overpass := Some (upper ov)\<rparr>
                      | _ \<Rightarrow> self)))"
proof -
  have r: "self' = (case fs (filename self) of
        None \<Rightarrow> self
      | Some ds \<Rightarrow> (case resolve_overpass ds self of Inl e \<Rightarrow> self | Inr s \<Rightarrow> s))"
    by (simp add: self'_def read_reader read_fields_reader)
  have unset: "overpass self = None \<Longrightarrow>
      self' = (case fs (filename self) of
                   None \<Rightarrow> self
                 | Some ds \<Rightarrow>
                     (case scan_overpasses (map fst ds) of
                        [ov] \<Rightarrow> self\<lparr>overpass := Some (upper ov)\<rparr>
                      | _ \<Rightarrow> self))"
    by (simp add: r resolve_overpass_unset split: option.splits)
  have fixed: "overpass self \<noteq> None \<Longrightarrow> self' = self"
    by (auto simp add: r split: option.splits sum.splits dest: resolve_overpass_fixed_same)
  have frame: "\<exists>o'. self' = self\<lparr>overpass := o'\<rparr>"
  proof (cases "overpass self")
    case None
    show ?thesis unfolding unset [OF None]
      by (auto split: option.splits list.splits intro: exI [of _ "overpass self"])
  next
    case (Some ov)
    then have "self' = self" using fixed by simp
    then show ?thesis by (auto intro: exI [of _ "overpass self"])
  qed
  then obtain o' where o': "self' = self\<lparr>overpass := o'\<rparr>" ..
  show ?thesis using unset fixed by (simp add: o')
qed

theorem read_reader_frame_witness:
  "fst (snd (read [''f.h5'' \<mapsto> [(''Soil_Moisture_Retrieval_Data_AM'', [])]]
       (SPL3SMP_Img_init
          \<lparr>activegpis = [], activearrlon = [] :: int list, activearrlat = [], subset_shape = [0, 0]\<rparr>
          ''f.h5'' ''r'' (Names []) None True None False) None)) =
     SPL3SMP_Img_init
       \<lparr>activegpis = [], activearrlon = [], activearrlat = [], subset_shape = [0, 0]\<rparr>
       ''f.h5'' ''r'' (Names []) (Some ''AM'') True None False \<and>
   fst (snd (read [''f.h5'' \<mapsto> [(''Soil_Moisture_Retrieval_Data_AM'', [])]]
       (SPL3SMP_Img_init
          \<lparr>activegpis = [], activearrlon = [] :: int list, activearrlat = [], subset_shape = [0, 0]\<rparr>
          ''f.h5'' ''r'' (Names []) (Some ''pm'') True None False) None)) =
     SPL3SMP_Img_init
       \<lparr>activegpis = [], activearrlon = [], activearrlat = [], subset_shape = [0, 0]\<rparr>
       ''f.h5'' ''r'' (Names []) (Some ''PM'') True None False"
  using read_reader_frame [where self =
      "SPL3SMP_Img_init
          \<lparr>activegpis = [], activearrlon = [] :: int list, activearrlat = [], subset_shape = [0, 0]\<rparr>
          ''f.h5'' ''r'' (Names []) None True None False"
      and fs = "[''f.h5'' \<mapsto> [(''Soil_Moisture_Retrieval_Data_AM'', [])]]" and ts = None]
    read_reader_frame [where self =
      "SPL3SMP_Img_init
          \<lparr>activegpis = [], activearrlon = [] :: int list, activearrlat = [], subset_shape = [0, 0]\<rparr>
          ''f.h5'' ''r'' (Names []) (Some ''pm'') True None False"
      and fs = "[''f.h5'' \<mapsto> [(''Soil_Moisture_Retrieval_Data_AM'', [])]]" and ts = None]
  by (simp add: SPL3SMP_Img_init_def templ_parse_AM upper_AM upper_def upper_char_def)

subsection \<open>The loop over the parameters and the dictionaries it fills\<close>

lemma read_params_Cons_Inr:
  assumes "read_params g vos ov grp (p # ps) rd rm ws = (Inr (rd', rm'), ws')"
  shows "\<exists>dat md. read_param g grp (p @ var_suffix ov) = Inr (dat, md) \<and>
     read_params g vos ov grp ps (AList.update (fst (ret_param_name vos ov p)) dat rd)
       (AList.update (fst (ret_param_name vos ov p)) md rm)
       (ws @ snd (ret_param_name vos ov p)) = (Inr (rd', rm'), ws')"
  using assms by (auto split: sum.splits prod.splits)

lemma read_params_distinct:
  "read_params g vos ov grp ps rd rm ws = (Inr (rd', rm'), ws') \<Longrightarrow>
   distinct (map fst rd) \<Longrightarrow> distinct (map fst rm) \<Longrightarrow>
   distinct (map fst rd') \<and> distinct (map fst rm')"
proof (induction ps arbitrary: rd rm ws)
  case Nil
  then show ?case by simp
next
  case (Cons p ps)
  from read_params_Cons_Inr [OF Cons.prems(1)] obtain dat md where
    step: "read_params g vos ov grp ps (AList.update (fst (ret_param_name vos ov p)) dat rd)
       (AList.update (fst (ret_param_name vos ov p)) md rm)
       (ws @ snd (ret_param_name vos ov p)) = (Inr (rd', rm'), ws')" by blast
  show ?case
    by (rule Cons.IH [OF step]) (simp_all add: distinct_update Cons.prems)
qed

lemma read_params_untouched:
  "read_params g vos ov grp ps rd rm ws = (Inr (rd', rm'), ws') \<Longrightarrow>
   \<forall>r \<in> set ps. fst (ret_param_name vos ov r) \<noteq> n \<Longrightarrow>
   map_of rd' n = map_of rd n \<and> map_of rm' n = map_of rm n"
proof (induction ps arbitrary: rd rm ws)
  case Nil
  then show ?case by simp
next
  case (Cons p ps)
  from read_params_Cons_Inr [OF Cons.prems(1)] obtain dat md where
    step: "read_params g vos ov grp ps (AList.update (fst (ret_param_name vos ov p)) dat rd)
       (AList.update (fst (ret_param_name vos ov p)) md rm)
       (ws @ snd (ret_param_name vos ov p)) = (Inr (rd', rm'), ws')" by blast
  have ne: "fst (ret_param_name vos ov p) \<noteq> n" and rest: "\<forall>r \<in> set ps. fst (ret_param_name vos ov r) \<noteq> n"
    using Cons.prems(2) by simp_all
  show ?case using Cons.IH [OF step rest] ne by (simp add: update_conv')
qed

lemma read_params_last_wins:
  "read_params g vos ov grp (ps1 @ q # ps2) rd rm ws = (Inr (rd', rm'), ws') \<Longrightarrow>
   \<forall>r \<in> set ps2. fst (ret_param_name vos ov r) \<noteq> fst (ret_param_name vos ov q) \<Longrightarrow>
   \<exists>dat md. read_param g grp (q @ var_suffix ov) = Inr (dat, md) \<and>
     map_of rd' (fst (ret_param_name vos ov q)) = Some dat \<and>
     map_of rm' (fst (ret_param_name vos ov q)) = Some md"
proof (induction ps1 arbitrary: rd rm ws)
  case Nil
  from read_params_Cons_Inr [of g vos ov grp q ps2 rd rm ws rd' rm' ws'] Nil.prems(1)
  obtain dat md where rp: "read_param g grp (q @ var_suffix ov) = Inr (dat, md)" and
    step: "read_params g vos ov grp ps2 (AList.update (fst (ret_param_name vos ov q)) dat rd)
       (AList.update (fst (ret_param_name vos ov q)) md rm)
       (ws @ snd (ret_param_name vos ov q)) = (Inr (rd', rm'), ws')" by auto
  show ?case using read_params_untouched [OF step Nil.prems(2)] rp by (simp add: update_conv')
next
  case (Cons p ps1)
  from read_params_Cons_Inr [of g vos ov grp p "ps1 @ q # ps2" rd rm ws rd' rm' ws'] Cons.prems(1)
  obtain dat md where
    step: "read_params g vos ov grp (ps1 @ q # ps2) (AList.update (fst (ret_param_name vos ov p)) dat rd)
       (AList.update (fst (ret_param_name vos ov p)) md rm)
       (ws @ snd (ret_param_name vos ov p)) = (Inr (rd', rm'), ws')" by auto
  show ?case by (rule Cons.IH [OF step Cons.prems(2)])
qed

lemma raster_items_keys:
  "raster_items items shp = Inr out \<Longrightarrow> map fst out = map fst items"
  by (induction items shp arbitrary: out rule: raster_items.induct)
     (auto split: sum.splits)

lemma raster_items_map_of:
  "raster_items items shp = Inr out \<Longrightarrow> map_of items n = Some dat \<Longrightarrow>
   \<exists>a. raster dat shp = Inr a \<and> map_of out n = Some a"
  by (induction items shp arbitrary: out rule: raster_items.induct)
     (auto split: sum.splits if_splits)

lemma map_of_array1d:
  "map_of (map (\<lambda>(param, dat). (param, array1d dat)) rd) n = map_option array1d (map_of rd n)"
  by (induction rd) auto

lemma shape_image_flatten:
  "flatten self \<Longrightarrow> shape_image self rd rm ts = Inr img \<Longrightarrow>
   data img = map (\<lambda>(param, dat). (param, array1d dat)) rd \<and> metadata img = rm"
  by (auto simp add: shape_image_def Let_def)

lemma shape_image_raster:
  "\<not> flatten self \<Longrightarrow> shape_image self rd rm ts = Inr img \<Longrightarrow>
   raster_items rd (subset_shape (grid self)) = Inr (data img) \<and> metadata img = rm"
  by (auto simp add: shape_image_def Let_def split: if_splits sum.splits)

lemma read_Inr:
  assumes "read fs self ts = (Inr img, self', ws)"
  shows "\<exists>rd rm. read_fields fs self = (Inr (rd, rm), self', ws) \<and>
     shape_image self' rd rm ts = Inr img"
  using assms by (auto simp add: read_def split: prod.splits sum.splits)

lemma read_fields_Inr:
  assumes "read_fields fs self = (Inr (rd, rm), self', ws)"
  shows "\<exists>ds grp. fs (filename self) = Some ds \<and> resolve_overpass ds self = Inr self' \<and>
     map_of ds (templ_format (group_suffix (overpass self'))) = Some grp \<and>
     read_params (grid self') (var_overpass_str self') (overpass self') grp (parameters self')
       [] [] [] = (Inr (rd, rm), ws)"
  using assms
  by (auto simp add: read_fields_def Let_def split: option.splits sum.splits prod.splits)


lemma resolve_overpass_frame:
  "resolve_overpass ds self = Inr self' \<Longrightarrow>
   grid self' = grid self \<and> parameters self' = parameters self \<and>
   var_overpass_str self' = var_overpass_str self \<and> flatten self' = flatten self \<and>
   filename self' = filename self \<and> mode self' = mode self"
  by (auto simp add: resolve_overpass_def Let_def split: option.splits list.splits if_splits)

lemma read_params_succeeds:
  "\<forall>r \<in> set rs. \<exists>d m. read_param g grp (r @ var_suffix ov) = Inr (d, m) \<Longrightarrow>
   \<exists>rd' rm' w. read_params g vos ov grp rs rd rm ws = (Inr (rd', rm'), w)"
proof (induction rs arbitrary: rd rm ws)
  case Nil
  then show ?case by simp
next
  case (Cons r rs)
  then obtain d m where rp: "read_param g grp (r @ var_suffix ov) = Inr (d, m)" by auto
  have rest: "\<forall>r \<in> set rs. \<exists>d m. read_param g grp (r @ var_suffix ov) = Inr (d, m)"
    using Cons.prems by simp
  show ?case using Cons.IH [OF rest] rp by (simp split: prod.splits)
qed

text \<open>
  C9. Let two requested parameters \<open>p\<close> and \<open>q\<close>, \<open>q\<close> listed after \<open>p\<close>, have the same
  output name \<open>n\<close>, and let no parameter listed after \<open>q\<close> have that name. When the read
  returns an image, the names of its data and of its metadata are pairwise distinct, so
  there is a single entry under \<open>n\<close>, and it holds what was read for \<open>q\<close>: the metadata
  of the field of \<open>q\<close>, and its data as a 1-D array in flatten mode, as the raster in
  raster mode. The collision itself raises nothing: the loop over the parameters succeeds
  whenever every single field can be read.
\<close>

theorem read_name_collision:
  assumes rd: "read fs self ts = (Inr img, self', ws)"
    and ps: "parameters self = ps1 @ p # ps2 @ q # ps3"
    and same: "fst (ret_param_name (var_overpass_str self) (overpass self') p) = n"
              "fst (ret_param_name (var_overpass_str self) (overpass self') q) = n"
    and last: "\<forall>r \<in> set ps3. fst (ret_param_name (var_overpass_str self) (overpass self') r) \<noteq> n"
  shows "distinct (map fst (data img)) \<and> distinct (map fst (metadata img)) \<and>
    (\<exists>ds grp dat md. fs (filename self) = Some ds \<and>
       map_of ds (templ_format (group_suffix (overpass self'))) = Some grp \<and>
       read_param (grid self) grp (q @ var_suffix (overpass self')) = Inr (dat, md) \<and>
       map_of (metadata img) n = Some md \<and>
       (if flatten self then map_of (data img) n = Some (array1d dat)
        else \<exists>a. raster dat (subset_shape (grid self)) = Inr a \<and> map_of (data img) n = Some a)) \<and>
    ((\<forall>r \<in> set rs. \<exists>d m. read_param g grp' (r @ var_suffix ov) = Inr (d, m)) \<longrightarrow>
     (\<exists>rd' rm' w. read_params g vos ov grp' rs [] [] [] = (Inr (rd', rm'), w)))"
proof -
  from read_Inr [OF rd] obtain rdat rmeta where
    rf: "read_fields fs self = (Inr (rdat, rmeta), self', ws)" and
    sh: "shape_image self' rdat rmeta ts = Inr img" by blast
  from read_fields_Inr [OF rf] obtain ds grp where
    ds: "fs (filename self) = Some ds" and res: "resolve_overpass ds self = Inr self'" and
    grp: "map_of ds (templ_format (group_suffix (overpass self'))) = Some grp" and
    loop: "read_params (grid self') (var_overpass_str self') (overpass self') grp (parameters self')
       [] [] [] = (Inr (rdat, rmeta), ws)" by blast
  note fr = resolve_overpass_frame [OF res]
  have loop': "read_params (grid self) (var_overpass_str self) (overpass self') grp
       ((ps1 @ p # ps2) @ q # ps3) [] [] [] = (Inr (rdat, rmeta), ws)"
    using loop fr ps by simp
  have dist: "distinct (map fst rdat) \<and> distinct (map fst rmeta)"
    using read_params_distinct [OF loop'] by simp
  from read_params_last_wins [OF loop'] last same obtain dat md where
    rp: "read_param (grid self) grp (q @ var_suffix (overpass self')) = Inr (dat, md)" and
    md: "map_of rmeta n = Some md" and dt: "map_of rdat n = Some dat" by auto
  have meta: "metadata img = rmeta"
    using sh by (cases "flatten self'") (simp_all add: shape_image_flatten shape_image_raster)
  have keys: "map fst (data img) = map fst rdat"
  proof (cases "flatten self'")
    case True
    then show ?thesis using shape_image_flatten [OF True sh]
      by (simp add: comp_def case_prod_unfold)
  next
    case False
    from shape_image_raster [OF False sh]
    have "raster_items rdat (subset_shape (grid self')) = Inr (data img)" by simp
    then show ?thesis by (rule raster_items_keys)
  qed
  have val: "if flatten self then map_of (data img) n = Some (array1d dat)
        else \<exists>a. raster dat (subset_shape (grid self)) = Inr a \<and> map_of (data img) n = Some a"
  proof (cases "flatten self'")
    case True
    then show ?thesis using shape_image_flatten [OF True sh] dt fr
      by (simp add: map_of_array1d)
  next
    case False
    from shape_image_raster [OF False sh]
    have "raster_items rdat (subset_shape (grid self')) = Inr (data img)" by simp
    from raster_items_map_of [OF this dt] show ?thesis using False fr by simp
  qed
  have tot: "(\<forall>r \<in> set rs. \<exists>d m. read_param g grp' (r @ var_suffix ov) = Inr (d, m)) \<longrightarrow>
     (\<exists>rd' rm' w. read_params g vos ov grp' rs [] [] [] = (Inr (rd', rm'), w))"
    using read_params_succeeds [of rs g grp' ov vos "[]" "[]" "[]"] by blast
  show ?thesis using dist meta keys ds grp rp md val tot by auto
qed


theorem read_name_collision_witness:
  "read [''f.h5'' \<mapsto> [(''Soil_Moisture_Retrieval_Data_PM'',
            [(''soil_moisture_pm'',
              \<lparr>dset_values = \<lparr>shape = [1, 2], elems = [1, 2]\<rparr>, dset_attrs = [(''units'', 1)]\<rparr>),
             (''soil_moisture_pm_pm'',
              \<lparr>dset_values = \<lparr>shape = [1, 2], elems = [3, 4]\<rparr>, dset_attrs = [(''units'', 2)]\<rparr>)])]]
     \<lparr>filename = ''f.h5'', mode = ''r'',
            grid = \<lparr>activegpis = [0, 1], activearrlon = [10, 11 :: int], activearrlat = [20, 20],
                     subset_shape = [1, 2]\<rparr>,
            overpass = Some ''PM'', var_overpass_str = True,
            parameters = [''soil_moisture'', ''soil_moisture_pm''], flatten = True\<rparr> None =
   (Inr \<lparr>lon = \<lparr>shape = [2], elems = [10, 11]\<rparr>, lat = \<lparr>shape = [2], elems = [20, 20]\<rparr>,
            data = [(''soil_moisture_pm'', \<lparr>shape = [2], elems = [3, 4]\<rparr>)],
            metadata = [(''soil_moisture_pm'', [(''units'', 2)])], timestamp = None\<rparr>,
    \<lparr>filename = ''f.h5'', mode = ''r'',
            grid = \<lparr>activegpis = [0, 1], activearrlon = [10, 11 :: int], activearrlat = [20, 20],
                     subset_shape = [1, 2]\<rparr>,
            overpass = Some ''PM'', var_overpass_str = True,
            parameters = [''soil_moisture'', ''soil_moisture_pm''], flatten = True\<rparr>, [])"
proof -
  let ?R = "\<lparr>filename = ''f.h5'', mode = ''r'',
          grid = \<lparr>activegpis = [0, 1], activearrlon = [10, 11 :: int], activearrlat = [20, 20],
                   subset_shape = [1, 2]\<rparr>,
          overpass = Some ''PM'', var_overpass_str = True,
          parameters = [''soil_moisture'', ''soil_moisture_pm''], flatten = True\<rparr>"
  let ?FS = "[''f.h5'' \<mapsto> [(''Soil_Moisture_Retrieval_Data_PM'',
          [(''soil_moisture_pm'',
            \<lparr>dset_values = \<lparr>shape = [1, 2], elems = [1, 2]\<rparr>, dset_attrs = [(''units'', 1)]\<rparr>),
           (''soil_moisture_pm_pm'',
            \<lparr>dset_values = \<lparr>shape = [1, 2], elems = [3, 4]\<rparr>, dset_attrs = [(''units'', 2)]\<rparr>)])]]"
  let ?IMG = "\<lparr>lon = \<lparr>shape = [2], elems = [10, 11]\<rparr>, lat = \<lparr>shape = [2], elems = [20, 20]\<rparr>,
          data = [(''soil_moisture_pm'', \<lparr>shape = [2], elems = [3, 4]\<rparr>)],
          metadata = [(''soil_moisture_pm'', [(''units'', 2)])], timestamp = None\<rparr>"
  have r: "read ?FS ?R None = (Inr ?IMG, ?R, [])"
    by (simp add: read_def read_fields_def resolve_overpass_def templ_format_def
        overpass_templ_prefix_def group_suffix_def upper_PM var_suffix_def read_param_def
        flipud_def blocks_def in_bounds_def position_def mask_by_attrs_def
        ret_param_name_def endswith_def lower_PM shape_image_def array1d_def)
  have ps: "parameters ?R = [] @ ''soil_moisture'' # [] @ ''soil_moisture_pm'' # []"
    by simp
  have n1: "fst (ret_param_name (var_overpass_str ?R) (overpass ?R) ''soil_moisture'') =
      ''soil_moisture_pm''"
    by (simp add: ret_param_name_def endswith_def lower_PM)
  have n2: "fst (ret_param_name (var_overpass_str ?R) (overpass ?R) ''soil_moisture_pm'') =
      ''soil_moisture_pm''"
    by (simp add: ret_param_name_def endswith_def lower_PM)
  have l: "\<forall>r \<in> set []. fst (ret_param_name (var_overpass_str ?R) (overpass ?R) r) \<noteq>
      ''soil_moisture_pm''"
    by simp
  from read_name_collision [OF r ps n1 n2 l] r show ?thesis by simp
qed

subsection \<open>Arrays: blocks, flipping and reshaping\<close>

lemma blocks_Suc:
  "blocks (Suc n) blk xs = blocks n blk xs @ [take blk (drop (n * blk) xs)]"
  by (simp add: blocks_def)

lemma length_blocks: "length (blocks n blk xs) = n"
  by (simp add: blocks_def)

lemma concat_blocks_take: "concat (blocks n blk xs) = take (n * blk) xs"
proof (induction n)
  case 0
  then show ?case by (simp add: blocks_def)
next
  case (Suc n)
  have "take (n * blk) xs @ take blk (drop (n * blk) xs) = take (n * blk + blk) xs"
    by (simp add: take_add)
  then show ?case using Suc by (simp add: blocks_Suc add.commute)
qed

lemma concat_blocks: "length xs = n * blk \<Longrightarrow> concat (blocks n blk xs) = xs"
  by (simp add: concat_blocks_take)

lemma block_length:
  assumes "length xs = n * blk" and "r \<in> set (blocks n blk xs)"
  shows "length r = blk"
proof -
  from assms(2) obtain i where i: "i < n" and r: "r = take blk (drop (i * blk) xs)"
    by (auto simp add: blocks_def)
  have "Suc i * blk \<le> n * blk" using i by (intro mult_le_mono1) simp
  then have "blk \<le> length xs - i * blk" using assms(1) by simp
  then show ?thesis using r by simp
qed

lemma nth_block_concat:
  "\<forall>r \<in> set rs. length r = blk \<Longrightarrow> i < length rs \<Longrightarrow>
   take blk (drop (i * blk) (concat rs)) = rs ! i"
proof (induction rs arbitrary: i)
  case Nil
  then show ?case by simp
next
  case (Cons r rs)
  show ?case
  proof (cases i)
    case 0
    then show ?thesis using Cons.prems by simp
  next
    case (Suc j)
    then have "take blk (drop (j * blk) (concat rs)) = rs ! j"
      using Cons.IH [of j] Cons.prems by simp
    then show ?thesis using Suc Cons.prems by simp
  qed
qed

lemma blocks_concat:
  assumes "\<forall>r \<in> set rs. length r = blk"
  shows "blocks (length rs) blk (concat rs) = rs"
proof -
  have "blocks (length rs) blk (concat rs) = map (\<lambda>i. rs ! i) [0..<length rs]"
    unfolding blocks_def using assms by (intro map_cong refl) (simp add: nth_block_concat)
  then show ?thesis by (simp add: map_nth)
qed

lemma flip_blocks_twice:
  assumes "length xs = n * blk"
  shows "concat (rev (blocks n blk (concat (rev (blocks n blk xs))))) = xs"
proof -
  let ?rs = "rev (blocks n blk xs)"
  have len: "length ?rs = n" by (simp add: length_blocks)
  have each: "\<forall>r \<in> set ?rs. length r = blk" using block_length [OF assms] by simp
  have "blocks n blk (concat ?rs) = ?rs" using blocks_concat [OF each] len by simp
  then show ?thesis by (simp add: concat_blocks [OF assms])
qed

lemma length_flip_blocks:
  assumes "length xs = n * blk"
  shows "length (concat (rev (blocks n blk xs))) = length xs"
proof -
  have "length (concat (rev (blocks n blk xs))) = length (concat (blocks n blk xs))"
    by (simp add: length_concat rev_map [symmetric] sum_list_rev)
  then show ?thesis by (simp add: concat_blocks [OF assms])
qed

lemma flipud_shape: "flipud a = Inr b \<Longrightarrow> shape b = shape a"
  by (auto simp add: flipud_def split: list.splits)

lemma flipud_length:
  "flipud a = Inr b \<Longrightarrow> length (elems a) = prod_list (shape a) \<Longrightarrow>
   length (elems b) = length (elems a)"
  by (auto simp add: flipud_def concat_blocks split: list.splits)

lemma flipud_twice:
  "flipud a = Inr b \<Longrightarrow> length (elems a) = prod_list (shape a) \<Longrightarrow> flipud b = Inr a"
  by (auto simp add: flipud_def flip_blocks_twice split: list.splits)

lemma raster_2d:
  "length shp = 2 \<Longrightarrow> prod_list shp = length xs \<Longrightarrow>
   \<exists>a. raster xs shp = Inr a \<and> shape a = shp \<and> length (elems a) = length xs"
  by (cases shp) (auto simp add: raster_def reshape_def flipud_def concat_blocks)

lemma raster_Inr:
  "raster xs shp = Inr a \<Longrightarrow>
   shape a = shp \<and> prod_list shp = length xs \<and> length (elems a) = length xs \<and>
   flipud a = Inr \<lparr>shape = shp, elems = xs\<rparr>"
  apply (auto simp add: raster_def reshape_def split: if_splits)
  using flipud_shape apply fastforce
  using flipud_length apply fastforce
  using flipud_twice apply fastforce
  done

subsection \<open>The shapes of what is read\<close>

lemma index_array_length: "index_array xs is = Inr ys \<Longrightarrow> length ys = length is"
  by (induction "is" arbitrary: ys) (auto split: if_splits sum.splits)

lemma length_mask_by_attrs: "length (mask_by_attrs attrs xs) = length xs"
  by (simp add: mask_by_attrs_def length_mask_where split: option.splits)

lemma read_param_length:
  "read_param g grp field = Inr (dat, md) \<Longrightarrow> length dat = length (activegpis g)"
  by (auto simp add: read_param_def length_mask_by_attrs index_array_length
      split: option.splits sum.splits)

lemma set_alist_update: "set (AList.update k v al) \<subseteq> insert (k, v) (set al)"
  by (induction al) auto

lemma read_params_lengths:
  "read_params g vos ov grp ps rd rm ws = (Inr (rd', rm'), ws') \<Longrightarrow>
   \<forall>(n, d) \<in> set rd. length d = length (activegpis g) \<Longrightarrow>
   \<forall>(n, d) \<in> set rd'. length d = length (activegpis g)"
proof (induction ps arbitrary: rd rm ws)
  case Nil
  then show ?case by simp
next
  case (Cons p ps)
  from read_params_Cons_Inr [OF Cons.prems(1)] obtain dat md where
    rp: "read_param g grp (p @ var_suffix ov) = Inr (dat, md)" and
    step: "read_params g vos ov grp ps (AList.update (fst (ret_param_name vos ov p)) dat rd)
       (AList.update (fst (ret_param_name vos ov p)) md rm)
       (ws @ snd (ret_param_name vos ov p)) = (Inr (rd', rm'), ws')" by blast
  have "\<forall>(n, d) \<in> set (AList.update (fst (ret_param_name vos ov p)) dat rd).
      length d = length (activegpis g)"
    using Cons.prems(2) read_param_length [OF rp]
      set_alist_update [of "fst (ret_param_name vos ov p)" dat rd] by auto
  then show ?case by (rule Cons.IH [OF step])
qed

lemma raster_items_shapes:
  "raster_items items shp = Inr out \<Longrightarrow>
   \<forall>(n, a) \<in> set out. shape a = shp \<and> length (elems a) = prod_list shp"
proof (induction items arbitrary: out)
  case Nil
  then show ?case by simp
next
  case (Cons item items)
  obtain n d where item: "item = (n, d)" by (cases item)
  from Cons.prems item obtain a rest where a: "raster d shp = Inr a" and
    rest: "raster_items items shp = Inr rest" and out: "out = (n, a) # rest"
    by (auto split: sum.splits)
  have "shape a = shp \<and> length (elems a) = prod_list shp"
    using raster_Inr [OF a] by simp
  then show ?case using Cons.IH [OF rest] out by simp
qed

lemma raster_items_2d:
  "length shp = 2 \<Longrightarrow> \<forall>(n, d) \<in> set items. length d = prod_list shp \<Longrightarrow>
   \<exists>out. raster_items items shp = Inr out"
proof (induction items)
  case Nil
  then show ?case by simp
next
  case (Cons item items)
  obtain n d where item: "item = (n, d)" by (cases item)
  have "prod_list shp = length d" using Cons.prems(2) item by simp
  from raster_2d [OF Cons.prems(1) this] obtain a where "raster d shp = Inr a" by blast
  moreover obtain out where "raster_items items shp = Inr out"
    using Cons.IH Cons.prems by auto
  ultimately show ?case using item by simp
qed

lemma mentions_flatten:
  "\<not> recommends_flatten grid_1d_error" "recommends_flatten (shape_mismatch_error shp)"
  by (simp_all add: grid_1d_error_def shape_mismatch_error_def)


lemma read_fields_frame:
  "read_fields fs self = (r, self', ws) \<Longrightarrow> grid self' = grid self \<and> flatten self' = flatten self"
  by (auto simp add: read_fields_def Let_def
      split: option.splits sum.splits prod.splits dest: resolve_overpass_frame)

lemma read_Inl_shape:
  "\<not> flatten self \<Longrightarrow>
   length (subset_shape (grid self)) \<noteq> 2 \<or>
   prod_list (subset_shape (grid self)) \<noteq> length (activearrlon (grid self)) \<or>
   prod_list (subset_shape (grid self)) \<noteq> length (activearrlat (grid self)) \<Longrightarrow>
   \<exists>e. fst (read fs self ts) = Inl e"
proof -
  assume nf: "\<not> flatten self" and bad: "length (subset_shape (grid self)) \<noteq> 2 \<or>
   prod_list (subset_shape (grid self)) \<noteq> length (activearrlon (grid self)) \<or>
   prod_list (subset_shape (grid self)) \<noteq> length (activearrlat (grid self))"
  obtain r self' ws where rf: "read_fields fs self = (r, self', ws)"
    by (cases "read_fields fs self") auto
  note fr = read_fields_frame [OF rf]
  show ?thesis
  proof (cases r)
    case (Inl e)
    then show ?thesis using rf by (simp add: read_def)
  next
    case (Inr dm)
    then show ?thesis using rf nf bad fr
      by (auto simp add: read_def shape_image_def Let_def split: prod.splits)
  qed
qed

text \<open>
  C5, as stated, fails for a subset shape that is not 2-dimensional: the read fails, but
  with the message that a 2d grid is required, which does not recommend flatten mode.
\<close>

theorem read_1d_grid_error_counterexample:
  "read [''f.h5'' \<mapsto> [(''Soil_Moisture_Retrieval_Data_AM'',
        [(''soil_moisture'',
          \<lparr>dset_values = \<lparr>shape = [2, 2], elems = [1, 2, 3, 4]\<rparr>, dset_attrs = []\<rparr>)])]]
     \<lparr>filename = ''f.h5'', mode = ''r'',
       grid = \<lparr>activegpis = [0, 1, 2, 3], activearrlon = [10, 11, 10, 11 :: int], activearrlat = [20, 20, 21, 21],
                subset_shape = [4]\<rparr>,
       overpass = Some ''AM'', var_overpass_str = True, parameters = [''soil_moisture''],
       flatten = False\<rparr> None =
   (Inl grid_1d_error,
    \<lparr>filename = ''f.h5'', mode = ''r'',
       grid = \<lparr>activegpis = [0, 1, 2, 3], activearrlon = [10, 11, 10, 11 :: int], activearrlat = [20, 20, 21, 21],
                subset_shape = [4]\<rparr>,
       overpass = Some ''AM'', var_overpass_str = True, parameters = [''soil_moisture''],
       flatten = False\<rparr>, []) \<and>
   \<not> recommends_flatten grid_1d_error"
  by (simp add: read_def read_fields_def resolve_overpass_def templ_format_def
      overpass_templ_prefix_def group_suffix_def upper_AM var_suffix_def read_param_def
      flipud_def blocks_def in_bounds_def position_def mask_by_attrs_def
      ret_param_name_def endswith_def lower_AM shape_image_def raster_def reshape_def upt_rec
      mentions_flatten)

text \<open>
  C5, amended. In raster mode the read fails, returning no image, whenever the subset
  shape of the grid is not 2-dimensional or its product differs from the length of the
  active longitudes or latitudes. When the fields themselves were read without error:
  a shape that is not 2-dimensional gives the error whose message says that a 2d grid
  is required, and that message does not recommend flatten mode; a 2-dimensional shape
  whose product differs from the length of a coordinate array gives the error that names
  the shape and recommends \<open>flatten=True\<close>; and a 2-dimensional shape whose product is
  the length of the coordinate arrays and of the active index list gives an image whose
  longitudes, latitudes and data arrays all have exactly that shape.
\<close>

theorem read_raster_shape_check:
  fixes self :: "('a::linorder) SPL3SMP_Img" and fs ts
  defines "g \<equiv> grid self"
  assumes nf: "\<not> flatten self"
  shows "(length (subset_shape g) \<noteq> 2 \<or> prod_list (subset_shape g) \<noteq> length (activearrlon g) \<or>
      prod_list (subset_shape g) \<noteq> length (activearrlat g) \<longrightarrow>
      (\<exists>e. fst (read fs self ts) = Inl e)) \<and>
    (read_fields fs self = (Inr (rd, rm), self', ws) \<longrightarrow>
      (length (subset_shape g) \<noteq> 2 \<longrightarrow> read fs self ts = (Inl grid_1d_error, self', ws)) \<and>
      (length (subset_shape g) = 2 \<and>
         (prod_list (subset_shape g) \<noteq> length (activearrlon g) \<or>
          prod_list (subset_shape g) \<noteq> length (activearrlat g)) \<longrightarrow>
         read fs self ts = (Inl (shape_mismatch_error (subset_shape g)), self', ws)) \<and>
      (length (subset_shape g) = 2 \<and> prod_list (subset_shape g) = length (activearrlon g) \<and>
         prod_list (subset_shape g) = length (activearrlat g) \<and>
         prod_list (subset_shape g) = length (activegpis g) \<longrightarrow>
         (\<exists>img. read fs self ts = (Inr img, self', ws) \<and>
            shape (lon img) = subset_shape g \<and> shape (lat img) = subset_shape g \<and>
            map fst (data img) = map fst rd \<and>
            (\<forall>(n, a) \<in> set (data img).
               shape a = subset_shape g \<and> length (elems a) = prod_list (subset_shape g))))) \<and>
    \<not> recommends_flatten grid_1d_error \<and>
    recommends_flatten (shape_mismatch_error (subset_shape g))"
proof (intro conjI impI)
  assume "length (subset_shape g) \<noteq> 2 \<or> prod_list (subset_shape g) \<noteq> length (activearrlon g) \<or>
      prod_list (subset_shape g) \<noteq> length (activearrlat g)"
  then show "\<exists>e. fst (read fs self ts) = Inl e"
    unfolding g_def by (rule read_Inl_shape [OF nf])
next
  assume rf: "read_fields fs self = (Inr (rd, rm), self', ws)"
    and "length (subset_shape g) \<noteq> 2"
  then show "read fs self ts = (Inl grid_1d_error, self', ws)"
    using nf read_fields_frame [OF rf] by (simp add: read_def shape_image_def g_def)
next
  assume rf: "read_fields fs self = (Inr (rd, rm), self', ws)"
    and "length (subset_shape g) = 2 \<and>
         (prod_list (subset_shape g) \<noteq> length (activearrlon g) \<or>
          prod_list (subset_shape g) \<noteq> length (activearrlat g))"
  then show "read fs self ts = (Inl (shape_mismatch_error (subset_shape g)), self', ws)"
    using nf read_fields_frame [OF rf] by (auto simp add: read_def shape_image_def g_def)
next
  assume rf: "read_fields fs self = (Inr (rd, rm), self', ws)"
    and ok: "length (subset_shape g) = 2 \<and> prod_list (subset_shape g) = length (activearrlon g) \<and>
         prod_list (subset_shape g) = length (activearrlat g) \<and>
         prod_list (subset_shape g) = length (activegpis g)"
  note fr = read_fields_frame [OF rf]
  from read_fields_Inr [OF rf] obtain ds grp where
    loop: "read_params (grid self') (var_overpass_str self') (overpass self') grp (parameters self')
       [] [] [] = (Inr (rd, rm), ws)" by blast
  have eq: "length (activegpis (grid self')) = prod_list (subset_shape g)"
    using ok fr by (simp add: g_def)
  have "\<forall>(n, d) \<in> set rd. length d = length (activegpis (grid self'))"
    using read_params_lengths [OF loop] by simp
  then have lens: "\<forall>(n, d) \<in> set rd. length d = prod_list (subset_shape g)"
    unfolding eq .
  from raster_2d [of "subset_shape g" "activearrlon g"] ok obtain lons where
    lons: "raster (activearrlon g) (subset_shape g) = Inr lons" "shape lons = subset_shape g"
    by auto
  from raster_2d [of "subset_shape g" "activearrlat g"] ok obtain lats where
    lats: "raster (activearrlat g) (subset_shape g) = Inr lats" "shape lats = subset_shape g"
    by auto
  from raster_items_2d [OF _ lens] ok obtain out where
    out: "raster_items rd (subset_shape g) = Inr out" by auto
  let ?img = "\<lparr>lon = lons, lat = lats, data = out, metadata = rm, timestamp = ts\<rparr>"
  have "read fs self ts = (Inr ?img, self', ws)"
    using rf nf fr ok lons lats out by (simp add: read_def shape_image_def g_def)
  moreover have "map fst out = map fst rd" using out by (rule raster_items_keys)
  moreover have "\<forall>(n, a) \<in> set out.
      shape a = subset_shape g \<and> length (elems a) = prod_list (subset_shape g)"
    using out by (rule raster_items_shapes)
  ultimately show "\<exists>img. read fs self ts = (Inr img, self', ws) \<and>
            shape (lon img) = subset_shape g \<and> shape (lat img) = subset_shape g \<and>
            map fst (data img) = map fst rd \<and>
            (\<forall>(n, a) \<in> set (data img).
               shape a = subset_shape g \<and> length (elems a) = prod_list (subset_shape g))"
    using lons lats by (intro exI [of _ ?img]) simp
next
  show "\<not> recommends_flatten grid_1d_error" by (rule mentions_flatten(1))
next
  show "recommends_flatten (shape_mismatch_error (subset_shape g))" by (rule mentions_flatten(2))
qed

theorem read_raster_shape_check_witness:
  "read [''f.h5'' \<mapsto> [(''Soil_Moisture_Retrieval_Data_AM'',
        [(''soil_moisture'',
          \<lparr>dset_values = \<lparr>shape = [2, 2], elems = [1, 2, 3, 4]\<rparr>, dset_attrs = []\<rparr>)])]]
     \<lparr>filename = ''f.h5'', mode = ''r'',
       grid = \<lparr>activegpis = [0, 1, 3], activearrlon = [10, 11, 11 :: int], activearrlat = [20, 20, 21],
                subset_shape = [2, 2]\<rparr>,
       overpass = Some ''AM'', var_overpass_str = True, parameters = [''soil_moisture''],
       flatten = False\<rparr> None =
   (Inl (shape_mismatch_error [2, 2]),
    \<lparr>filename = ''f.h5'', mode = ''r'',
       grid = \<lparr>activegpis = [0, 1, 3], activearrlon = [10, 11, 11 :: int], activearrlat = [20, 20, 21],
                subset_shape = [2, 2]\<rparr>,
       overpass = Some ''AM'', var_overpass_str = True, parameters = [''soil_moisture''],
       flatten = False\<rparr>, []) \<and>
   read [''f.h5'' \<mapsto> [(''Soil_Moisture_Retrieval_Data_AM'',
        [(''soil_moisture'',
          \<lparr>dset_values = \<lparr>shape = [2, 2], elems = [1, 2, 3, 4]\<rparr>, dset_attrs = []\<rparr>)])]]
     \<lparr>filename = ''f.h5'', mode = ''r'',
       grid = \<lparr>activegpis = [0, 1, 2, 3], activearrlon = [10, 11, 10, 11 :: int], activearrlat = [20, 20, 21, 21],
                subset_shape = [2, 2]\<rparr>,
       overpass = Some ''AM'', var_overpass_str = True, parameters = [''soil_moisture''],
       flatten = False\<rparr> None =
   (Inr \<lparr>lon = \<lparr>shape = [2, 2], elems = [10, 11, 10, 11]\<rparr>,
         lat = \<lparr>shape = [2, 2], elems = [21, 21, 20, 20]\<rparr>,
         data = [(''soil_moisture_am'', \<lparr>shape = [2, 2], elems = [1, 2, 3, 4]\<rparr>)],
         metadata = [(''soil_moisture_am'', [])], timestamp = None\<rparr>,
    \<lparr>filename = ''f.h5'', mode = ''r'',
       grid = \<lparr>activegpis = [0, 1, 2, 3], activearrlon = [10, 11, 10, 11 :: int], activearrlat = [20, 20, 21, 21],
                subset_shape = [2, 2]\<rparr>,
       overpass = Some ''AM'', var_overpass_str = True, parameters = [''soil_moisture''],
       flatten = False\<rparr>, [])"
  using
    read_raster_shape_check [where fs = "[''f.h5'' \<mapsto> [(''Soil_Moisture_Retrieval_Data_AM'',
        [(''soil_moisture'',
          \<lparr>dset_values = \<lparr>shape = [2, 2], elems = [1, 2, 3, 4]\<rparr>, dset_attrs = []\<rparr>)])]]"
      and self = "\<lparr>filename = ''f.h5'', mode = ''r'',
       grid = \<lparr>activegpis = [0, 1, 3], activearrlon = [10, 11, 11 :: int], activearrlat = [20, 20, 21],
                subset_shape = [2, 2]\<rparr>,
       overpass = Some ''AM'', var_overpass_str = True, parameters = [''soil_moisture''],
       flatten = False\<rparr>"
      and self' = "\<lparr>filename = ''f.h5'', mode = ''r'',
       grid = \<lparr>activegpis = [0, 1, 3], activearrlon = [10, 11, 11 :: int], activearrlat = [20, 20, 21],
                subset_shape = [2, 2]\<rparr>,
       overpass = Some ''AM'', var_overpass_str = True, parameters = [''soil_moisture''],
       flatten = False\<rparr>"
      and ts = None and ws = "[]" and rm = "[(''soil_moisture_am'', [])]"
      and rd = "[(''soil_moisture_am'', [3, 4, 2])]"]
    read_raster_shape_check [where fs = "[''f.h5'' \<mapsto> [(''Soil_Moisture_Retrieval_Data_AM'',
        [(''soil_moisture'',
          \<lparr>dset_values = \<lparr>shape = [2, 2], elems = [1, 2, 3, 4]\<rparr>, dset_attrs = []\<rparr>)])]]"
      and self = "\<lparr>filename = ''f.h5'', mode = ''r'',
       grid = \<lparr>activegpis = [0, 1, 2, 3], activearrlon = [10, 11, 10, 11 :: int], activearrlat = [20, 20, 21, 21],
                subset_shape = [2, 2]\<rparr>,
       overpass = Some ''AM'', var_overpass_str = True, parameters = [''soil_moisture''],
       flatten = False\<rparr>"
      and self' = "\<lparr>filename = ''f.h5'', mode = ''r'',
       grid = \<lparr>activegpis = [0, 1, 2, 3], activearrlon = [10, 11, 10, 11 :: int], activearrlat = [20, 20, 21, 21],
                subset_shape = [2, 2]\<rparr>,
       overpass = Some ''AM'', var_overpass_str = True, parameters = [''soil_moisture''],
       flatten = False\<rparr>"
      and ts = None and ws = "[]" and rm = "[(''soil_moisture_am'', [])]"
      and rd = "[(''soil_moisture_am'', [3, 4, 1, 2])]"]
  by (simp add: read_def read_fields_def resolve_overpass_def templ_format_def
      overpass_templ_prefix_def group_suffix_def upper_AM var_suffix_def read_param_def
      flipud_def blocks_def in_bounds_def position_def mask_by_attrs_def
      ret_param_name_def endswith_def lower_AM shape_image_def raster_def reshape_def upt_rec)

subsection \<open>Raster mode and flatten mode\<close>

lemma index_array_from:
  "k \<le> length xs \<Longrightarrow> index_array xs (map int [k..<length xs]) = Inr (drop k xs)"
proof (induction "length xs - k" arbitrary: k)
  case 0
  then show ?case by simp
next
  case (Suc d)
  then have k: "k < length xs" by simp
  have up: "[k..<length xs] = k # [Suc k..<length xs]" using k by (simp add: upt_rec)
  have ih: "index_array xs (map int [Suc k..<length xs]) = Inr (drop (Suc k) xs)"
    using Suc.hyps(1) [of "Suc k"] Suc.hyps(2) k by simp
  show ?case using k ih
    by (simp add: up in_bounds_def position_def Cons_nth_drop_Suc)
qed

lemma index_array_identity:
  "n = length xs \<Longrightarrow> index_array xs (map int [0..<n]) = Inr xs"
  using index_array_from [of 0 xs] by simp

lemma raster_eq:
  "length xs = r * c \<Longrightarrow>
   raster xs [r, c] = Inr \<lparr>shape = [r, c], elems = concat (rev (blocks r c xs))\<rparr>"
  by (simp add: raster_def reshape_def flipud_def)

lemma read_fields_identity_grid:
  assumes len: "length xs = r * c"
    and nomask: "map_of attrs ''_FillValue'' = None"
  shows "read_fields
     [fname \<mapsto> [(''Soil_Moisture_Retrieval_Data_AM'',
         [(''soil_moisture'', \<lparr>dset_values = \<lparr>shape = [r, c], elems = xs\<rparr>, dset_attrs = attrs\<rparr>)])]]
     \<lparr>filename = fname, mode = m,
        grid = \<lparr>activegpis = map int [0..<r * c], activearrlon = lons, activearrlat = lats,
                 subset_shape = [r, c]\<rparr>,
        overpass = None, var_overpass_str = True, parameters = [''soil_moisture''],
        flatten = fl\<rparr> =
   (Inr ([(''soil_moisture_am'', concat (rev (blocks r c xs)))],
         [(''soil_moisture_am'', copy_attrs attrs (map fst attrs) [])]),
    \<lparr>filename = fname, mode = m,
        grid = \<lparr>activegpis = map int [0..<r * c], activearrlon = lons, activearrlat = lats,
                 subset_shape = [r, c]\<rparr>,
        overpass = Some ''AM'', var_overpass_str = True, parameters = [''soil_moisture''],
        flatten = fl\<rparr>, [])"
proof -
  have l: "length (concat (rev (blocks r c xs))) = r * c"
    using length_flip_blocks [OF len] len by simp
  have idx: "index_array (concat (rev (blocks r c xs))) (map int [0..<r * c]) =
      Inr (concat (rev (blocks r c xs)))"
    by (rule index_array_identity) (simp only: l)
  have fl: "flipud \<lparr>shape = [r, c], elems = xs\<rparr> =
      Inr \<lparr>shape = [r, c], elems = concat (rev (blocks r c xs))\<rparr>"
    by (simp add: flipud_def)
  have rp: "read_param \<lparr>activegpis = map int [0..<r * c], activearrlon = lons, activearrlat = lats,
                 subset_shape = [r, c]\<rparr>
       [(''soil_moisture'', \<lparr>dset_values = \<lparr>shape = [r, c], elems = xs\<rparr>, dset_attrs = attrs\<rparr>)]
       ''soil_moisture'' =
     Inr (concat (rev (blocks r c xs)), copy_attrs attrs (map fst attrs) [])"
    using idx fl nomask by (simp add: read_param_def mask_by_attrs_def)
  show ?thesis
    using rp
    by (simp add: read_fields_def resolve_overpass_def templ_parse_AM upper_AM
        templ_format_def overpass_templ_prefix_def group_suffix_def var_suffix_def
        ret_param_name_def endswith_def lower_AM)
qed


lemma resolve_overpass_flatten:
  "resolve_overpass ds (self\<lparr>flatten := b\<rparr>) =
     (case resolve_overpass ds self of Inl e \<Rightarrow> Inl e | Inr s \<Rightarrow> Inr (s\<lparr>flatten := b\<rparr>))"
  by (simp add: resolve_overpass_def Let_def split: option.splits list.splits)

lemma read_fields_flatten:
  "read_fields fs (self\<lparr>flatten := b\<rparr>) =
     (case read_fields fs self of (r, s, w) \<Rightarrow> (r, s\<lparr>flatten := b\<rparr>, w))"
proof (cases "fs (filename self)")
  case None
  then show ?thesis by (simp add: read_fields_def)
next
  case (Some ds)
  show ?thesis
  proof (cases "resolve_overpass ds self")
    case (Inl e)
    then show ?thesis using Some by (simp add: read_fields_def resolve_overpass_flatten)
  next
    case (Inr s)
    then show ?thesis using Some
      by (simp add: read_fields_def resolve_overpass_flatten Let_def
          split: option.splits prod.splits)
  qed
qed

lemma raster_items_flipud:
  "raster_items items shp = Inr out \<Longrightarrow> map_of items n = Some xs \<Longrightarrow>
   \<exists>b. map_of out n = Some b \<and> flipud b = Inr \<lparr>shape = shp, elems = xs\<rparr>"
  using raster_items_map_of [of items shp out n xs] raster_Inr [of xs shp] by blast

lemma read_flatten_of_raster:
  fixes self :: "('a::linorder) SPL3SMP_Img"
  assumes r: "read fs (self\<lparr>flatten := False\<rparr>) ts = (Inr img_r, s_r, ws)"
  shows "\<exists>img_f. read fs (self\<lparr>flatten := True\<rparr>) ts = (Inr img_f, s_r\<lparr>flatten := True\<rparr>, ws) \<and>
      shape (lon img_r) = subset_shape (grid self) \<and>
      shape (lat img_r) = subset_shape (grid self) \<and>
      (\<forall>(n, a) \<in> set (data img_r). shape a = subset_shape (grid self)) \<and>
      map fst (data img_f) = map fst (data img_r) \<and>
      (\<forall>(n, a) \<in> set (data img_f).
         shape a = [prod_list (subset_shape (grid self))] \<and>
         length (elems a) = prod_list (subset_shape (grid self))) \<and>
      (\<forall>n a. map_of (data img_f) n = Some a \<longrightarrow>
         (\<exists>b. map_of (data img_r) n = Some b \<and>
              flipud b = Inr \<lparr>shape = subset_shape (grid self), elems = elems a\<rparr>)) \<and>
      flipud (lon img_r) = Inr \<lparr>shape = subset_shape (grid self), elems = elems (lon img_f)\<rparr> \<and>
      flipud (lat img_r) = Inr \<lparr>shape = subset_shape (grid self), elems = elems (lat img_f)\<rparr>"
proof -
  let ?g = "grid self" and ?shp = "subset_shape (grid self)"
  from read_Inr [OF r] obtain rd rm where
    rf: "read_fields fs (self\<lparr>flatten := False\<rparr>) = (Inr (rd, rm), s_r, ws)" and
    sh: "shape_image s_r rd rm ts = Inr img_r" by blast
  have fr: "grid s_r = ?g" "\<not> flatten s_r" using read_fields_frame [OF rf] by simp_all
  have rf': "read_fields fs (self\<lparr>flatten := True\<rparr>) = (Inr (rd, rm), s_r\<lparr>flatten := True\<rparr>, ws)"
    using rf read_fields_flatten [where fs = fs and self = "self\<lparr>flatten := False\<rparr>" and b = True] by simp
  let ?img_f = "\<lparr>lon = array1d (activearrlon ?g), lat = array1d (activearrlat ?g),
      data = map (\<lambda>(param, dat). (param, array1d dat)) rd, metadata = rm, timestamp = ts\<rparr>"
  have f: "read fs (self\<lparr>flatten := True\<rparr>) ts = (Inr ?img_f, s_r\<lparr>flatten := True\<rparr>, ws)"
    using rf' fr by (simp add: read_def shape_image_def Let_def)
  from sh fr obtain lons lats out where
    lons: "raster (activearrlon ?g) ?shp = Inr lons" and
    lats: "raster (activearrlat ?g) ?shp = Inr lats" and
    out: "raster_items rd ?shp = Inr out" and
    img: "img_r = \<lparr>lon = lons, lat = lats, data = out, metadata = rm, timestamp = ts\<rparr>"
    by (auto simp add: shape_image_def Let_def split: if_splits sum.splits)
  have keys: "map fst (data ?img_f) = map fst (data img_r)"
    using raster_items_keys [OF out] img by (simp add: comp_def case_prod_unfold)
  have shapes_r: "\<forall>(n, a) \<in> set (data img_r). shape a = ?shp"
    using raster_items_shapes [OF out] img by auto
  have lens: "\<forall>(n, d) \<in> set rd. length d = prod_list ?shp"
  proof (clarify)
    fix n d assume nd: "(n, d) \<in> set rd"
    then obtain d' where d': "map_of rd n = Some d'" 
      by (metis weak_map_of_SomeI)
    have dist: "distinct (map fst rd)"
    proof -
      from read_fields_Inr [OF rf] obtain ds grp where
        "read_params (grid s_r) (var_overpass_str s_r) (overpass s_r) grp (parameters s_r)
           [] [] [] = (Inr (rd, rm), ws)" by blast
      from read_params_distinct [OF this] show ?thesis by simp
    qed
    have "map_of rd n = Some d" using nd dist by simp
    from raster_items_map_of [OF out this] obtain a where "raster d ?shp = Inr a" by blast
    from raster_Inr [OF this] show "length d = prod_list ?shp" by simp
  qed
  have shapes_f: "\<forall>(n, a) \<in> set (data ?img_f).
         shape a = [prod_list ?shp] \<and> length (elems a) = prod_list ?shp"
    using lens by (auto simp add: array1d_def)
  have vals: "\<forall>n a. map_of (data ?img_f) n = Some a \<longrightarrow>
         (\<exists>b. map_of (data img_r) n = Some b \<and> flipud b = Inr \<lparr>shape = ?shp, elems = elems a\<rparr>)"
  proof (intro allI impI)
    fix n a assume "map_of (data ?img_f) n = Some a"
    then obtain d where d: "map_of rd n = Some d" and a: "a = array1d d"
      by (auto simp add: map_of_array1d)
    from raster_items_flipud [OF out d] show
      "\<exists>b. map_of (data img_r) n = Some b \<and> flipud b = Inr \<lparr>shape = ?shp, elems = elems a\<rparr>"
      using img a by (simp add: array1d_def)
  qed
  have lon: "flipud (lon img_r) = Inr \<lparr>shape = ?shp, elems = elems (lon ?img_f)\<rparr>"
    using raster_Inr [OF lons] img by (simp add: array1d_def)
  have lat: "flipud (lat img_r) = Inr \<lparr>shape = ?shp, elems = elems (lat ?img_f)\<rparr>"
    using raster_Inr [OF lats] img by (simp add: array1d_def)
  have s1: "shape (lon img_r) = ?shp" using raster_Inr [OF lons] img by simp
  have s2: "shape (lat img_r) = ?shp" using raster_Inr [OF lats] img by simp
  show ?thesis
    by (rule exI [of _ ?img_f]) (use f s1 s2 shapes_r keys shapes_f vals lon lat in blast)
qed


lemma read_identity_grid:
  assumes len: "length xs = r * c" and lon: "length lons = r * c" and lat: "length lats = r * c"
    and nomask: "map_of attrs ''_FillValue'' = None"
  shows "read [fname \<mapsto> [(''Soil_Moisture_Retrieval_Data_AM'',
           [(''soil_moisture'',
             \<lparr>dset_values = \<lparr>shape = [r, c], elems = xs\<rparr>, dset_attrs = attrs\<rparr>)])]]
        \<lparr>filename = fname, mode = m,
            grid = \<lparr>activegpis = map int [0..<r * c], activearrlon = lons,
                     activearrlat = lats, subset_shape = [r, c]\<rparr>,
            overpass = None, var_overpass_str = True, parameters = [''soil_moisture''],
            flatten = False\<rparr> ts' =
      (Inr \<lparr>lon = \<lparr>shape = [r, c], elems = concat (rev (blocks r c lons))\<rparr>,
            lat = \<lparr>shape = [r, c], elems = concat (rev (blocks r c lats))\<rparr>,
            data = [(''soil_moisture_am'', \<lparr>shape = [r, c], elems = xs\<rparr>)],
            metadata = [(''soil_moisture_am'', copy_attrs attrs (map fst attrs) [])],
            timestamp = ts'\<rparr>,
       \<lparr>filename = fname, mode = m,
            grid = \<lparr>activegpis = map int [0..<r * c], activearrlon = lons,
                     activearrlat = lats, subset_shape = [r, c]\<rparr>,
            overpass = Some ''AM'', var_overpass_str = True, parameters = [''soil_moisture''],
            flatten = False\<rparr>, [])"
    and "read [fname \<mapsto> [(''Soil_Moisture_Retrieval_Data_AM'',
           [(''soil_moisture'',
             \<lparr>dset_values = \<lparr>shape = [r, c], elems = xs\<rparr>, dset_attrs = attrs\<rparr>)])]]
        \<lparr>filename = fname, mode = m,
            grid = \<lparr>activegpis = map int [0..<r * c], activearrlon = lons,
                     activearrlat = lats, subset_shape = [r, c]\<rparr>,
            overpass = None, var_overpass_str = True, parameters = [''soil_moisture''],
            flatten = True\<rparr> ts' =
      (Inr \<lparr>lon = \<lparr>shape = [r * c], elems = lons\<rparr>,
            lat = \<lparr>shape = [r * c], elems = lats\<rparr>,
            data = [(''soil_moisture_am'',
                     \<lparr>shape = [r * c], elems = concat (rev (blocks r c xs))\<rparr>)],
            metadata = [(''soil_moisture_am'', copy_attrs attrs (map fst attrs) [])],
            timestamp = ts'\<rparr>,
       \<lparr>filename = fname, mode = m,
            grid = \<lparr>activegpis = map int [0..<r * c], activearrlon = lons,
                     activearrlat = lats, subset_shape = [r, c]\<rparr>,
            overpass = Some ''AM'', var_overpass_str = True, parameters = [''soil_moisture''],
            flatten = True\<rparr>, [])"
proof -
  have l: "length (concat (rev (blocks r c xs))) = r * c"
    using length_flip_blocks [OF len] len by simp
  show "read [fname \<mapsto> [(''Soil_Moisture_Retrieval_Data_AM'',
           [(''soil_moisture'',
             \<lparr>dset_values = \<lparr>shape = [r, c], elems = xs\<rparr>, dset_attrs = attrs\<rparr>)])]]
        \<lparr>filename = fname, mode = m,
            grid = \<lparr>activegpis = map int [0..<r * c], activearrlon = lons,
                     activearrlat = lats, subset_shape = [r, c]\<rparr>,
            overpass = None, var_overpass_str = True, parameters = [''soil_moisture''],
            flatten = False\<rparr> ts' =
      (Inr \<lparr>lon = \<lparr>shape = [r, c], elems = concat (rev (blocks r c lons))\<rparr>,
            lat = \<lparr>shape = [r, c], elems = concat (rev (blocks r c lats))\<rparr>,
            data = [(''soil_moisture_am'', \<lparr>shape = [r, c], elems = xs\<rparr>)],
            metadata = [(''soil_moisture_am'', copy_attrs attrs (map fst attrs) [])],
            timestamp = ts'\<rparr>,
       \<lparr>filename = fname, mode = m,
            grid = \<lparr>activegpis = map int [0..<r * c], activearrlon = lons,
                     activearrlat = lats, subset_shape = [r, c]\<rparr>,
            overpass = Some ''AM'', var_overpass_str = True, parameters = [''soil_moisture''],
            flatten = False\<rparr>, [])"
    using len lon lat l
    by (simp add: read_def read_fields_identity_grid [OF len nomask] shape_image_def
        raster_eq flip_blocks_twice)
  show "read [fname \<mapsto> [(''Soil_Moisture_Retrieval_Data_AM'',
           [(''soil_moisture'',
             \<lparr>dset_values = \<lparr>shape = [r, c], elems = xs\<rparr>, dset_attrs = attrs\<rparr>)])]]
        \<lparr>filename = fname, mode = m,
            grid = \<lparr>activegpis = map int [0..<r * c], activearrlon = lons,
                     activearrlat = lats, subset_shape = [r, c]\<rparr>,
            overpass = None, var_overpass_str = True, parameters = [''soil_moisture''],
            flatten = True\<rparr> ts' =
      (Inr \<lparr>lon = \<lparr>shape = [r * c], elems = lons\<rparr>,
            lat = \<lparr>shape = [r * c], elems = lats\<rparr>,
            data = [(''soil_moisture_am'',
                     \<lparr>shape = [r * c], elems = concat (rev (blocks r c xs))\<rparr>)],
            metadata = [(''soil_moisture_am'', copy_attrs attrs (map fst attrs) [])],
            timestamp = ts'\<rparr>,
       \<lparr>filename = fname, mode = m,
            grid = \<lparr>activegpis = map int [0..<r * c], activearrlon = lons,
                     activearrlat = lats, subset_shape = [r, c]\<rparr>,
            overpass = Some ''AM'', var_overpass_str = True, parameters = [''soil_moisture''],
            flatten = True\<rparr>, [])"
    using len lon lat l
    by (simp add: read_def read_fields_identity_grid [OF len nomask] shape_image_def
        array1d_def)
qed

text \<open>
  C1, as stated, fails for the raster mode. For a file with one overpass group holding
  a 4 by 4 field and a grid whose active points are the 16 cells in file order, the read
  with flatten disabled returns the input array itself, not the input array with its rows
  reversed: the rows are reversed once when the field is flattened and once more when
  the raster is built.
\<close>

theorem read_raster_not_reversed_counterexample:
  "read [''f.h5'' \<mapsto> [(''Soil_Moisture_Retrieval_Data_AM'',
        [(''soil_moisture'',
          \<lparr>dset_values = \<lparr>shape = [4, 4],
              elems = [1, 2, 3, 4, 5, 6, 7, 8, 9, 10, 11, 12, 13, 14, 15, 16]\<rparr>,
            dset_attrs = []\<rparr>)])]]
     \<lparr>filename = ''f.h5'', mode = ''r'',
       grid = \<lparr>activegpis = [0, 1, 2, 3, 4, 5, 6, 7, 8, 9, 10, 11, 12, 13, 14, 15],
                activearrlon = [0, 1, 2, 3, 0, 1, 2, 3, 0, 1, 2, 3, 0, 1, 2, 3] :: int list,
                activearrlat = [0, 0, 0, 0, 1, 1, 1, 1, 2, 2, 2, 2, 3, 3, 3, 3],
                subset_shape = [4, 4]\<rparr>,
       overpass = None, var_overpass_str = True, parameters = [''soil_moisture''],
       flatten = False\<rparr> None =
   (Inr \<lparr>lon = \<lparr>shape = [4, 4], elems = [0, 1, 2, 3, 0, 1, 2, 3, 0, 1, 2, 3, 0, 1, 2, 3]\<rparr>,
         lat = \<lparr>shape = [4, 4], elems = [3, 3, 3, 3, 2, 2, 2, 2, 1, 1, 1, 1, 0, 0, 0, 0]\<rparr>,
         data = [(''soil_moisture_am'',
                  \<lparr>shape = [4, 4], elems = [1, 2, 3, 4, 5, 6, 7, 8, 9, 10, 11, 12, 13, 14, 15, 16]\<rparr>)],
         metadata = [(''soil_moisture_am'', [])], timestamp = None\<rparr>,
    \<lparr>filename = ''f.h5'', mode = ''r'',
       grid = \<lparr>activegpis = [0, 1, 2, 3, 4, 5, 6, 7, 8, 9, 10, 11, 12, 13, 14, 15],
                activearrlon = [0, 1, 2, 3, 0, 1, 2, 3, 0, 1, 2, 3, 0, 1, 2, 3] :: int list,
                activearrlat = [0, 0, 0, 0, 1, 1, 1, 1, 2, 2, 2, 2, 3, 3, 3, 3],
                subset_shape = [4, 4]\<rparr>,
       overpass = Some ''AM'', var_overpass_str = True, parameters = [''soil_moisture''],
       flatten = False\<rparr>, []) \<and>
   flipud \<lparr>shape = [4, 4], elems = [1, 2, 3, 4, 5, 6, 7, 8, 9, 10, 11, 12, 13, 14, 15, 16] :: int list\<rparr> =
     Inr \<lparr>shape = [4, 4], elems = [13, 14, 15, 16, 9, 10, 11, 12, 5, 6, 7, 8, 1, 2, 3, 4]\<rparr> \<and>
   \<lparr>shape = [4, 4], elems = [1, 2, 3, 4, 5, 6, 7, 8, 9, 10, 11, 12, 13, 14, 15, 16] :: int list\<rparr> \<noteq>
     \<lparr>shape = [4, 4], elems = [13, 14, 15, 16, 9, 10, 11, 12, 5, 6, 7, 8, 1, 2, 3, 4]\<rparr>"
  by (simp add: read_def read_fields_def resolve_overpass_def templ_parse_AM templ_format_def
      overpass_templ_prefix_def group_suffix_def upper_AM var_suffix_def read_param_def
      flipud_def blocks_def in_bounds_def position_def mask_by_attrs_def
      ret_param_name_def endswith_def lower_AM shape_image_def raster_def reshape_def
      array1d_def upt_rec)

text \<open>
  C1, amended. First, for every reader, file and grid: when the read in raster mode
  returns an image, the read in flatten mode returns one too; the coordinate and data
  arrays of the raster image have the subset shape of the grid; the flat image has the
  same variables, each a 1-D array whose length is the product of that shape; and the
  values of each flat array, and of the flat coordinates, are the raster array with its
  rows reversed, read in row-major order. Second, for a file with one overpass group
  holding an \<open>r\<close> by \<open>c\<close> field without \<open>_FillValue\<close>, and the grid whose active points
  are all \<open>r * c\<close> cells in file order: the read in raster mode returns the input array
  unchanged, and the read in flatten mode returns the row-major flattening of the input
  array with its rows reversed.
\<close>

theorem read_raster_and_flatten:
  fixes self :: "('a::linorder) SPL3SMP_Img" and xs lons lats :: "('b::linorder) list"
  shows "(read fs (self\<lparr>flatten := False\<rparr>) ts = (Inr img_r, s_r, ws) \<longrightarrow>
     (\<exists>img_f. read fs (self\<lparr>flatten := True\<rparr>) ts = (Inr img_f, s_r\<lparr>flatten := True\<rparr>, ws) \<and>
        shape (lon img_r) = subset_shape (grid self) \<and>
        shape (lat img_r) = subset_shape (grid self) \<and>
        (\<forall>(n, a) \<in> set (data img_r). shape a = subset_shape (grid self)) \<and>
        map fst (data img_f) = map fst (data img_r) \<and>
        (\<forall>(n, a) \<in> set (data img_f).
           shape a = [prod_list (subset_shape (grid self))] \<and>
           length (elems a) = prod_list (subset_shape (grid self))) \<and>
        (\<forall>n a. map_of (data img_f) n = Some a \<longrightarrow>
           (\<exists>b. map_of (data img_r) n = Some b \<and>
                flipud b = Inr \<lparr>shape = subset_shape (grid self), elems = elems a\<rparr>)) \<and>
        flipud (lon img_r) = Inr \<lparr>shape = subset_shape (grid self), elems = elems (lon img_f)\<rparr> \<and>
        flipud (lat img_r) = Inr \<lparr>shape = subset_shape (grid self), elems = elems (lat img_f)\<rparr>)) \<and>
    (length xs = r * c \<and> length lons = r * c \<and> length lats = r * c \<and>
     map_of attrs ''_FillValue'' = None \<longrightarrow>
     read [fname \<mapsto> [(''Soil_Moisture_Retrieval_Data_AM'',
           [(''soil_moisture'',
             \<lparr>dset_values = \<lparr>shape = [r, c], elems = xs\<rparr>, dset_attrs = attrs\<rparr>)])]]
        \<lparr>filename = fname, mode = m,
            grid = \<lparr>activegpis = map int [0..<r * c], activearrlon = lons,
                     activearrlat = lats, subset_shape = [r, c]\<rparr>,
            overpass = None, var_overpass_str = True, parameters = [''soil_moisture''],
            flatten = False\<rparr> ts' =
      (Inr \<lparr>lon = \<lparr>shape = [r, c], elems = concat (rev (blocks r c lons))\<rparr>,
            lat = \<lparr>shape = [r, c], elems = concat (rev (blocks r c lats))\<rparr>,
            data = [(''soil_moisture_am'', \<lparr>shape = [r, c], elems = xs\<rparr>)],
            metadata = [(''soil_moisture_am'', copy_attrs attrs (map fst attrs) [])],
            timestamp = ts'\<rparr>,
       \<lparr>filename = fname, mode = m,
            grid = \<lparr>activegpis = map int [0..<r * c], activearrlon = lons,
                     activearrlat = lats, subset_shape = [r, c]\<rparr>,
            overpass = Some ''AM'', var_overpass_str = True, parameters = [''soil_moisture''],
            flatten = False\<rparr>, []) \<and>
     read [fname \<mapsto> [(''Soil_Moisture_Retrieval_Data_AM'',
           [(''soil_moisture'',
             \<lparr>dset_values = \<lparr>shape = [r, c], elems = xs\<rparr>, dset_attrs = attrs\<rparr>)])]]
        \<lparr>filename = fname, mode = m,
            grid = \<lparr>activegpis = map int [0..<r * c], activearrlon = lons,
                     activearrlat = lats, subset_shape = [r, c]\<rparr>,
            overpass = None, var_overpass_str = True, parameters = [''soil_moisture''],
            flatten = True\<rparr> ts' =
      (Inr \<lparr>lon = \<lparr>shape = [r * c], elems = lons\<rparr>,
            lat = \<lparr>shape = [r * c], elems = lats\<rparr>,
            data = [(''soil_moisture_am'',
                     \<lparr>shape = [r * c], elems = concat (rev (blocks r c xs))\<rparr>)],
            metadata = [(''soil_moisture_am'', copy_attrs attrs (map fst attrs) [])],
            timestamp = ts'\<rparr>,
       \<lparr>filename = fname, mode = m,
            grid = \<lparr>activegpis = map int [0..<r * c], activearrlon = lons,
                     activearrlat = lats, subset_shape = [r, c]\<rparr>,
            overpass = Some ''AM'', var_overpass_str = True, parameters = [''soil_moisture''],
            flatten = True\<rparr>, []) \<and>
     flipud \<lparr>shape = [r, c], elems = xs\<rparr> =
        Inr \<lparr>shape = [r, c], elems = concat (rev (blocks r c xs))\<rparr>)"
proof (intro conjI impI)
  assume "read fs (self\<lparr>flatten := False\<rparr>) ts = (Inr img_r, s_r, ws)"
  then show "(\<exists>img_f. read fs (self\<lparr>flatten := True\<rparr>) ts = (Inr img_f, s_r\<lparr>flatten := True\<rparr>, ws) \<and>
      shape (lon img_r) = subset_shape (grid self) \<and>
      shape (lat img_r) = subset_shape (grid self) \<and>
      (\<forall>(n, a) \<in> set (data img_r). shape a = subset_shape (grid self)) \<and>
      map fst (data img_f) = map fst (data img_r) \<and>
      (\<forall>(n, a) \<in> set (data img_f).
         shape a = [prod_list (subset_shape (grid self))] \<and>
         length (elems a) = prod_list (subset_shape (grid self))) \<and>
      (\<forall>n a. map_of (data img_f) n = Some a \<longrightarrow>
         (\<exists>b. map_of (data img_r) n = Some b \<and>
              flipud b = Inr \<lparr>shape = subset_shape (grid self), elems = elems a\<rparr>)) \<and>
      flipud (lon img_r) = Inr \<lparr>shape = subset_shape (grid self), elems = elems (lon img_f)\<rparr> \<and>
      flipud (lat img_r) = Inr \<lparr>shape = subset_shape (grid self), elems = elems (lat img_f)\<rparr>)"
    by (rule read_flatten_of_raster)
next
  assume a: "length xs = r * c \<and> length lons = r * c \<and> length lats = r * c \<and>
     map_of attrs ''_FillValue'' = None"
  show "read [fname \<mapsto> [(''Soil_Moisture_Retrieval_Data_AM'',
           [(''soil_moisture'',
             \<lparr>dset_values = \<lparr>shape = [r, c], elems = xs\<rparr>, dset_attrs = attrs\<rparr>)])]]
        \<lparr>filename = fname, mode = m,
            grid = \<lparr>activegpis = map int [0..<r * c], activearrlon = lons,
                     activearrlat = lats, subset_shape = [r, c]\<rparr>,
            overpass = None, var_overpass_str = True, parameters = [''soil_moisture''],
            flatten = False\<rparr> ts' =
      (Inr \<lparr>lon = \<lparr>shape = [r, c], elems = concat (rev (blocks r c lons))\<rparr>,
            lat = \<lparr>shape = [r, c], elems = concat (rev (blocks r c lats))\<rparr>,
            data = [(''soil_moisture_am'', \<lparr>shape = [r, c], elems = xs\<rparr>)],
            metadata = [(''soil_moisture_am'', copy_attrs attrs (map fst attrs) [])],
            timestamp = ts'\<rparr>,
       \<lparr>filename = fname, mode = m,
            grid = \<lparr>activegpis = map int [0..<r * c], activearrlon = lons,
                     activearrlat = lats, subset_shape = [r, c]\<rparr>,
            overpass = Some ''AM'', var_overpass_str = True, parameters = [''soil_moisture''],
            flatten = False\<rparr>, [])"
    using a by (intro read_identity_grid(1)) simp_all
  show "read [fname \<mapsto> [(''Soil_Moisture_Retrieval_Data_AM'',
           [(''soil_moisture'',
             \<lparr>dset_values = \<lparr>shape = [r, c], elems = xs\<rparr>, dset_attrs = attrs\<rparr>)])]]
        \<lparr>filename = fname, mode = m,
            grid = \<lparr>activegpis = map int [0..<r * c], activearrlon = lons,
                     activearrlat = lats, subset_shape = [r, c]\<rparr>,
            overpass = None, var_overpass_str = True, parameters = [''soil_moisture''],
            flatten = True\<rparr> ts' =
      (Inr \<lparr>lon = \<lparr>shape = [r * c], elems = lons\<rparr>,
            lat = \<lparr>shape = [r * c], elems = lats\<rparr>,
            data = [(''soil_moisture_am'',
                     \<lparr>shape = [r * c], elems = concat (rev (blocks r c xs))\<rparr>)],
            metadata = [(''soil_moisture_am'', copy_attrs attrs (map fst attrs) [])],
            timestamp = ts'\<rparr>,
       \<lparr>filename = fname, mode = m,
            grid = \<lparr>activegpis = map int [0..<r * c], activearrlon = lons,
                     activearrlat = lats, subset_shape = [r, c]\<rparr>,
            overpass = Some ''AM'', var_overpass_str = True, parameters = [''soil_moisture''],
            flatten = True\<rparr>, [])"
    using a by (intro read_identity_grid(2)) simp_all
  show "flipud \<lparr>shape = [r, c], elems = xs\<rparr> =
        Inr \<lparr>shape = [r, c], elems = concat (rev (blocks r c xs))\<rparr>"
    by (simp add: flipud_def)
qed

theorem read_raster_and_flatten_witness:
  "read [''f.h5'' \<mapsto> [(''Soil_Moisture_Retrieval_Data_AM'',
        [(''soil_moisture'',
          \<lparr>dset_values = \<lparr>shape = [4, 4],
              elems = [1, 2, 3, 4, 5, 6, 7, 8, 9, 10, 11, 12, 13, 14, 15, 16]\<rparr>,
            dset_attrs = []\<rparr>)])]]
     \<lparr>filename = ''f.h5'', mode = ''r'',
       grid = \<lparr>activegpis = [0, 1, 2, 3, 4, 5, 6, 7, 8, 9, 10, 11, 12, 13, 14, 15],
                activearrlon = [0, 1, 2, 3, 0, 1, 2, 3, 0, 1, 2, 3, 0, 1, 2, 3] :: int list,
                activearrlat = [0, 0, 0, 0, 1, 1, 1, 1, 2, 2, 2, 2, 3, 3, 3, 3],
                subset_shape = [4, 4]\<rparr>,
       overpass = None, var_overpass_str = True, parameters = [''soil_moisture''],
       flatten = True\<rparr> None =
   (Inr \<lparr>lon = \<lparr>shape = [16], elems = [0, 1, 2, 3, 0, 1, 2, 3, 0, 1, 2, 3, 0, 1, 2, 3]\<rparr>,
         lat = \<lparr>shape = [16], elems = [0, 0, 0, 0, 1, 1, 1, 1, 2, 2, 2, 2, 3, 3, 3, 3]\<rparr>,
         data = [(''soil_moisture_am'',
                  \<lparr>shape = [16], elems = [13, 14, 15, 16, 9, 10, 11, 12, 5, 6, 7, 8, 1, 2, 3, 4]\<rparr>)],
         metadata = [(''soil_moisture_am'', [])], timestamp = None\<rparr>,
    \<lparr>filename = ''f.h5'', mode = ''r'',
       grid = \<lparr>activegpis = [0, 1, 2, 3, 4, 5, 6, 7, 8, 9, 10, 11, 12, 13, 14, 15],
                activearrlon = [0, 1, 2, 3, 0, 1, 2, 3, 0, 1, 2, 3, 0, 1, 2, 3] :: int list,
                activearrlat = [0, 0, 0, 0, 1, 1, 1, 1, 2, 2, 2, 2, 3, 3, 3, 3],
                subset_shape = [4, 4]\<rparr>,
       overpass = Some ''AM'', var_overpass_str = True, parameters = [''soil_moisture''],
       flatten = True\<rparr>, [])"
  using read_raster_and_flatten [where fs = "[''f.h5'' \<mapsto> [(''Soil_Moisture_Retrieval_Data_AM'',
        [(''soil_moisture'',
          \<lparr>dset_values = \<lparr>shape = [4, 4],
              elems = [1, 2, 3, 4, 5, 6, 7, 8, 9, 10, 11, 12, 13, 14, 15, 16]\<rparr>,
            dset_attrs = []\<rparr>)])]]"
      and self = "\<lparr>filename = ''f.h5'', mode = ''r'',
       grid = \<lparr>activegpis = [0, 1, 2, 3, 4, 5, 6, 7, 8, 9, 10, 11, 12, 13, 14, 15],
                activearrlon = [0, 1, 2, 3, 0, 1, 2, 3, 0, 1, 2, 3, 0, 1, 2, 3] :: int list,
                activearrlat = [0, 0, 0, 0, 1, 1, 1, 1, 2, 2, 2, 2, 3, 3, 3, 3],
                subset_shape = [4, 4]\<rparr>,
       overpass = None, var_overpass_str = True, parameters = [''soil_moisture''],
       flatten = False\<rparr>"
      and ts = None
      and img_r = "\<lparr>lon = \<lparr>shape = [4, 4], elems = [0, 1, 2, 3, 0, 1, 2, 3, 0, 1, 2, 3, 0, 1, 2, 3]\<rparr>,
         lat = \<lparr>shape = [4, 4], elems = [3, 3, 3, 3, 2, 2, 2, 2, 1, 1, 1, 1, 0, 0, 0, 0]\<rparr>,
         data = [(''soil_moisture_am'',
                  \<lparr>shape = [4, 4], elems = [1, 2, 3, 4, 5, 6, 7, 8, 9, 10, 11, 12, 13, 14, 15, 16]\<rparr>)],
         metadata = [(''soil_moisture_am'', [])], timestamp = None\<rparr>"
      and s_r = "\<lparr>filename = ''f.h5'', mode = ''r'',
       grid = \<lparr>activegpis = [0, 1, 2, 3, 4, 5, 6, 7, 8, 9, 10, 11, 12, 13, 14, 15],
                activearrlon = [0, 1, 2, 3, 0, 1, 2, 3, 0, 1, 2, 3, 0, 1, 2, 3] :: int list,
                activearrlat = [0, 0, 0, 0, 1, 1, 1, 1, 2, 2, 2, 2, 3, 3, 3, 3],
                subset_shape = [4, 4]\<rparr>,
       overpass = Some ''AM'', var_overpass_str = True, parameters = [''soil_moisture''],
       flatten = False\<rparr>"
      and ws = "[]" and r = 4 and c = 4 and fname = "''f.h5''" and m = "''r''" and ts' = None
      and attrs = "[]"
      and xs = "[1, 2, 3, 4, 5, 6, 7, 8, 9, 10, 11, 12, 13, 14, 15, 16] :: int list"
      and lons = "[0, 1, 2, 3, 0, 1, 2, 3, 0, 1, 2, 3, 0, 1, 2, 3]"
      and lats = "[0, 0, 0, 0, 1, 1, 1, 1, 2, 2, 2, 2, 3, 3, 3, 3]"]
  by (simp add: read_def read_fields_def resolve_overpass_def templ_parse_AM templ_format_def
      overpass_templ_prefix_def group_suffix_def upper_AM var_suffix_def read_param_def
      flipud_def blocks_def in_bounds_def position_def mask_by_attrs_def
      ret_param_name_def endswith_def lower_AM shape_image_def raster_def reshape_def
      array1d_def upt_rec)

end
